theory Spec2Isabelle
  imports Main "HOL-Library.AList" "HOL-Library.Multiset"
begin


section \<open>A command-line tool that renames and reconciles files\<close>

text \<open>
  The theory follows the current source of the tool (the file that announces version
  0.1.2-alpha, with the workflows \<open>rename_by_file_order\<close>, \<open>remove\<close>, \<open>check_incoming\<close> and
  \<open>extract\<close>). The older copies of these functions kept in \<open>app.js\<close> are superseded by
  it and are not modelled; where they differ (the older walker calls itself without
  passing on its options, the older reorder workflow passes the extension on as it is)
  the text says so.
\<close>


section \<open>Numbers and strings\<close>

text \<open>
  The program is JavaScript. Strings are modelled as \<^typ>\<open>string\<close>, the numbers that
  reach the naming functions (a season, a file index) as \<^typ>\<open>int\<close>. A template literal
  renders a number in decimal; \<open>number_to_string\<close> is that rendering for integers
  (JavaScript agrees with it for every integer below \<open>10^21\<close>).
\<close>

fun digit_char :: "nat \<Rightarrow> char" where
  "digit_char n = ''0123456789'' ! n"

function dec_nat :: "nat \<Rightarrow> string" where
  "dec_nat n = (if n < 10 then [digit_char n] else dec_nat (n div 10) @ [digit_char (n mod 10)])"
  by pat_completeness auto
termination
  by (relation "measure (\<lambda>n. n)") auto

declare dec_nat.simps [simp del]

definition number_to_string :: "int \<Rightarrow> string" where
  "number_to_string n =
     (if n < 0 then CHR ''-'' # dec_nat (nat (- n)) else dec_nat (nat n))"


section \<open>Naming policy: ordered names\<close>

text \<open>
  \<^verbatim>\<open>function pad2(n) { if (n < 10) { return `0${n}`; } return n; }\<close>
  and its siblings \<open>pad3\<close>, \<open>pad4\<close>. The value returned is only ever spliced into a
  template literal, so the model returns the string that the literal shows. The season
  and the offset reach the program as text from the command line; the model takes the
  numbers they denote.
\<close>

definition pad2 :: "int \<Rightarrow> string" where
  "pad2 n = (if n < 10 then ''0'' @ number_to_string n else number_to_string n)"

definition pad3 :: "int \<Rightarrow> string" where
  "pad3 n =
     (if n < 10 then ''00'' @ number_to_string n
      else if n < 100 then ''0'' @ number_to_string n
      else number_to_string n)"

definition pad4 :: "int \<Rightarrow> string" where
  "pad4 n =
     (if n < 10 then ''000'' @ number_to_string n
      else if n < 100 then ''00'' @ number_to_string n
      else if n < 1000 then ''0'' @ number_to_string n
      else number_to_string n)"

definition get_season_episode_for_file_index :: "int \<Rightarrow> int \<Rightarrow> string \<Rightarrow> string" where
  "get_season_episode_for_file_index index season extension =
     ''S'' @ pad2 season @ ''E'' @ pad2 index @ extension"

definition get_simple_filename_index :: "string \<Rightarrow> int \<Rightarrow> string \<Rightarrow> string" where
  "get_simple_filename_index pfx index extension = pfx @ pad4 index @ extension"

definition get_ordered_filename :: "int \<Rightarrow> int \<Rightarrow> string \<Rightarrow> bool \<Rightarrow> string \<Rightarrow> string" where
  "get_ordered_filename season index pfx tv_show_mode extension =
     (if tv_show_mode then get_season_episode_for_file_index index season extension
      else get_simple_filename_index pfx index extension)"

text \<open>
  The specification's wording, ``zero-padded to width \<open>w\<close>'': the decimal rendering,
  filled up on the left with zeros when it is shorter than \<open>w\<close>, left alone otherwise.
\<close>

definition zero_padded :: "nat \<Rightarrow> int \<Rightarrow> string" where
  "zero_padded w n =
     replicate (w - length (number_to_string n)) CHR ''0'' @ number_to_string n"



section \<open>String operations of the host language\<close>

text \<open>
  \<open>String.prototype.startsWith\<close>, \<open>includes\<close>, \<open>replace\<close> (with a string pattern) and
  \<open>toLowerCase\<close>, on strings as lists of characters. \<open>first_occurrence pat s\<close> splits \<open>s\<close>
  around the first place where \<open>pat\<close> occurs: the text to its left and the text to its right.
\<close>

fun starts_with :: "string \<Rightarrow> string \<Rightarrow> bool" where
  "starts_with s [] = True"
| "starts_with [] (c # p) = False"
| "starts_with (d # s) (c # p) = (d = c \<and> starts_with s p)"

fun first_occurrence :: "string \<Rightarrow> string \<Rightarrow> (string \<times> string) option" where
  "first_occurrence pat [] = (if pat = [] then Some ([], []) else None)"
| "first_occurrence pat (c # s) =
     (if starts_with (c # s) pat then Some ([], drop (length pat) (c # s))
      else (case first_occurrence pat s of
              None \<Rightarrow> None
            | Some (left, right) \<Rightarrow> Some (c # left, right)))"

definition js_includes :: "string \<Rightarrow> string \<Rightarrow> bool" where
  "js_includes s pat = (first_occurrence pat s \<noteq> None)"

text \<open>
  The replacement text of \<open>replace\<close> is a template: \<open>$$\<close> stands for a dollar sign, \<open>$&\<close> for
  the matched text, \<open>$`\<close> for the text left of the match and \<open>$'\<close> for the text right of it.
  With a string pattern there are no capture groups, so every other character, a lone
  \<open>$\<close> included, stands for itself.
\<close>

fun get_substitution :: "string \<Rightarrow> string \<Rightarrow> string \<Rightarrow> string \<Rightarrow> string" where
  "get_substitution matched left right [] = []"
| "get_substitution matched left right [c] = [c]"
| "get_substitution matched left right (c # d # t) =
     (if c = CHR ''$'' \<and> d = CHR ''$'' then CHR ''$'' # get_substitution matched left right t
      else if c = CHR ''$'' \<and> d = CHR ''&'' then matched @ get_substitution matched left right t
      else if c = CHR ''$'' \<and> d = CHR 0x60 then left @ get_substitution matched left right t
      else if c = CHR ''$'' \<and> d = CHR 0x27 then right @ get_substitution matched left right t
      else c # get_substitution matched left right (d # t))"

definition js_replace :: "string \<Rightarrow> string \<Rightarrow> string \<Rightarrow> string" where
  "js_replace s pat replacement =
     (case first_occurrence pat s of
        None \<Rightarrow> s
      | Some (left, right) \<Rightarrow> left @ get_substitution pat left right replacement @ right)"

text \<open>Lower-casing, for the letters of ASCII.\<close>

definition to_lower_char :: "char \<Rightarrow> char" where
  "to_lower_char c =
     (case map_of (zip ''ABCDEFGHIJKLMNOPQRSTUVWXYZ'' ''abcdefghijklmnopqrstuvwxyz'') c of
        Some d \<Rightarrow> d
      | None \<Rightarrow> c)"

definition to_lower_case :: "string \<Rightarrow> string" where
  "to_lower_case s = map to_lower_char s"


section \<open>Naming policy: substitution\<close>

text \<open>
  The name that the body of \<open>remove\<close> computes for one file, in the statements that follow
  the assignment to \<open>fullpath\<close>:
  \<^verbatim>\<open>
  let new_name = file;
  if (file.startsWith(prefix)) { new_name = new_name.replace(prefix, replacement); }
  if (file.includes(suffix))   { new_name = new_name.replace(suffix, ''); }
  \<close>
\<close>

definition substituted_name :: "string \<Rightarrow> string \<Rightarrow> string \<Rightarrow> string \<Rightarrow> string" where
  "substituted_name file pfx replacement sfx =
     (let new_name = file;
          new_name = (if starts_with file pfx then js_replace new_name pfx replacement
                      else new_name);
          new_name = (if js_includes file sfx then js_replace new_name sfx []
                      else new_name)
      in new_name)"

text \<open>``Ends with'', for statements about extensions.\<close>

definition ends_with :: "string \<Rightarrow> string \<Rightarrow> bool" where
  "ends_with s e = starts_with (rev s) (rev e)"

section \<open>Paths and the file system\<close>

text \<open>
  A path is the list of its components, so \<open>path.join(dir, name)\<close> is \<open>dir @ [name]\<close> and
  \<open>path.basename\<close> is the last component. \<open>extname\<close> follows \<open>path.extname\<close> of the host
  platform on the last component: the text from the last dot on, and nothing when there is
  no dot, when the only dot is the first character, or when the component is \<open>..\<close>.
\<close>

type_synonym path = "string list"

definition basename :: "path \<Rightarrow> string" where
  "basename p = (if p = [] then [] else last p)"

definition extname_of :: "string \<Rightarrow> string" where
  "extname_of name =
     (if CHR ''.'' \<notin> set name \<or> name = ''..'' then []
      else if tl (dropWhile (\<lambda>c. c \<noteq> CHR ''.'') (rev name)) = [] then []
      else CHR ''.'' # rev (takeWhile (\<lambda>c. c \<noteq> CHR ''.'') (rev name)))"

definition extname :: "path \<Rightarrow> string" where
  "extname p = extname_of (basename p)"

fun path_string :: "path \<Rightarrow> string" where
  "path_string [] = []"
| "path_string [c] = c"
| "path_string (c # p) = c @ ''/'' @ path_string p"

text \<open>
  The file system is a tree. A directory lists its entries in the order in which
  \<open>readdir\<close> returns them. \<open>Dangling\<close> is a name that cannot be examined (\<open>statSync\<close>
  throws on it, as on a link to nothing); \<open>NoAccess\<close> is a directory that can be examined
  but not listed. The text of a file stands for its content.
\<close>

datatype fsnode =
    File string
  | Dir "(string \<times> fsnode) list"
  | Dangling
  | NoAccess

datatype error =
    ENOENT | ENOTDIR | EISDIR | EACCES | EEXIST | ENOTEMPTY | EINVAL
  | ExitStatus int
  | SpawnFailure string
  | ReferenceError string

fun is_directory :: "fsnode \<Rightarrow> bool" where
  "is_directory (Dir es) = True"
| "is_directory NoAccess = True"
| "is_directory (File c) = False"
| "is_directory Dangling = False"

fun lookup :: "fsnode \<Rightarrow> path \<Rightarrow> fsnode option" where
  "lookup n [] = Some n"
| "lookup (Dir es) (c # p) = (case map_of es c of None \<Rightarrow> None | Some n \<Rightarrow> lookup n p)"
| "lookup (File t) (c # p) = None"
| "lookup Dangling (c # p) = None"
| "lookup NoAccess (c # p) = None"

text \<open>
  \<open>store p v\<close> puts node \<open>v\<close> at path \<open>p\<close> (\<open>None\<close> removes what is there), when the directory
  that holds \<open>p\<close> exists; a new name goes to the end of the listing, an old one keeps its
  place.
\<close>

fun store :: "path \<Rightarrow> fsnode option \<Rightarrow> fsnode \<Rightarrow> fsnode" where
  "store [] v n = (case v of None \<Rightarrow> n | Some m \<Rightarrow> m)"
| "store [c] v (Dir es) =
     Dir (case v of None \<Rightarrow> AList.delete c es | Some m \<Rightarrow> AList.update c m es)"
| "store (c # d # p) v (Dir es) =
     (case map_of es c of
        None \<Rightarrow> Dir es
      | Some n \<Rightarrow> Dir (AList.update c (store (d # p) v n) es))"
| "store (c # p) v (File t) = File t"
| "store (c # p) v Dangling = Dangling"
| "store (c # p) v NoAccess = NoAccess"

text \<open>
  The calls of the \<open>fs\<close> module, as functions from the tree to an error or the new tree.
  \<open>statSync\<close> and \<open>existsSync\<close> follow links, so a dangling name does not exist for them.
\<close>

definition statSync :: "fsnode \<Rightarrow> path \<Rightarrow> error + fsnode" where
  "statSync root p =
     (case lookup root p of
        None \<Rightarrow> Inl ENOENT
      | Some Dangling \<Rightarrow> Inl ENOENT
      | Some n \<Rightarrow> Inr n)"


definition parent_error :: "fsnode \<Rightarrow> path \<Rightarrow> error option" where
  "parent_error root p =
     (if p = [] then Some EINVAL
      else case lookup root (butlast p) of
             None \<Rightarrow> Some ENOENT
           | Some (Dir es) \<Rightarrow> None
           | Some NoAccess \<Rightarrow> Some EACCES
           | Some (File t) \<Rightarrow> Some ENOTDIR
           | Some Dangling \<Rightarrow> Some ENOENT)"

definition renameSync :: "path \<Rightarrow> path \<Rightarrow> fsnode \<Rightarrow> error + fsnode" where
  "renameSync src dest root =
     (case lookup root src of
        None \<Rightarrow> Inl ENOENT
      | Some n \<Rightarrow>
          (case parent_error root dest of
             Some e \<Rightarrow> Inl e
           | None \<Rightarrow>
               if src = [] \<or> (take (length src) dest = src \<and> src \<noteq> dest) then Inl EINVAL
               else if src = dest then Inr root
               else (case lookup root dest of
                       Some (Dir es) \<Rightarrow>
                         if \<not> is_directory n then Inl EISDIR
                         else if es \<noteq> [] then Inl ENOTEMPTY
                         else Inr (store dest (Some n) (store src None root))
                     | Some NoAccess \<Rightarrow>
                         if \<not> is_directory n then Inl EISDIR else Inl EACCES
                     | Some m \<Rightarrow>
                         if is_directory n then Inl ENOTDIR
                         else Inr (store dest (Some n) (store src None root))
                     | None \<Rightarrow> Inr (store dest (Some n) (store src None root)))))"

definition copyFileSync :: "path \<Rightarrow> path \<Rightarrow> fsnode \<Rightarrow> error + fsnode" where
  "copyFileSync src dest root =
     (case statSync root src of
        Inl e \<Rightarrow> Inl e
      | Inr (File t) \<Rightarrow>
          (case parent_error root dest of
             Some e \<Rightarrow> Inl e
           | None \<Rightarrow>
               if src = dest then Inr root
               else (case lookup root dest of
                       Some (Dir es) \<Rightarrow> Inl EISDIR
                     | Some NoAccess \<Rightarrow> Inl EISDIR
                     | _ \<Rightarrow> Inr (store dest (Some (File t)) root)))
      | Inr n \<Rightarrow> Inl EISDIR)"

definition mkdirSync :: "path \<Rightarrow> fsnode \<Rightarrow> error + fsnode" where
  "mkdirSync p root =
     (case lookup root p of
        Some n \<Rightarrow> Inl EEXIST
      | None \<Rightarrow>
          (case parent_error root p of
             Some e \<Rightarrow> Inl e
           | None \<Rightarrow> Inr (store p (Some (Dir [])) root)))"

text \<open>\<open>openSync(filename, 'w+')\<close>: the file is created, or emptied when it exists.\<close>

definition openSync_w :: "path \<Rightarrow> fsnode \<Rightarrow> error + fsnode" where
  "openSync_w p root =
     (case parent_error root p of
        Some e \<Rightarrow> Inl e
      | None \<Rightarrow>
          (case lookup root p of
             Some (Dir es) \<Rightarrow> Inl EISDIR
           | Some NoAccess \<Rightarrow> Inl EISDIR
           | _ \<Rightarrow> Inr (store p (Some (File [])) root)))"

text \<open>
  \<open>path.join(dir, name)\<close> for a name that the program computes: the name is cut at the
  separators and the result normalised (empty and \<open>.\<close> segments vanish, \<open>..\<close> steps
  back). For a name that is one ordinary component this is \<open>dir @ [name]\<close>, which is what
  the model writes where the name comes out of a directory listing.
\<close>

fun split_on :: "char \<Rightarrow> string \<Rightarrow> string list" where
  "split_on sep [] = [[]]"
| "split_on sep (c # cs) =
     (if c = sep then [] # split_on sep cs
      else (case split_on sep cs of
              [] \<Rightarrow> [[c]]
            | w # ws \<Rightarrow> (c # w) # ws))"

definition path_join :: "path \<Rightarrow> string \<Rightarrow> path" where
  "path_join dir name =
     foldl (\<lambda>p seg. if seg = [] \<or> seg = ''.'' then p
                     else if seg = ''..'' then butlast p
                     else p @ [seg])
       dir (split_on CHR ''/'' name)"

section \<open>The state of a run\<close>

text \<open>
  What a run can change: the file system, the console (\<open>console.log\<close> writes an \<open>Out\<close>
  line, \<open>console.error\<close> an \<open>Err\<close> line), the file logger (\<open>file_logger\<close> is the path of
  the open log file, \<open>None\<close> while the logger is disabled; \<open>file_log\<close> holds the lines
  written to it), and the external commands that were executed.
  The options are read from \<open>config\<close>; the record holds the flags that the functions
  below read from it, the other options reach them as arguments.
\<close>

datatype line = Out string | Err string

record state =
  fs :: fsnode
  console :: "line list"
  file_logger :: "path option"
  file_log :: "string list"
  spawned :: "(string \<times> string list) list"

record config =
  copy :: bool
  dryrun :: bool
  force :: bool
  dot :: bool
  recurse :: bool

fun is_out :: "line \<Rightarrow> bool" where
  "is_out (Out m) = True"
| "is_out (Err m) = False"

definition file_logger_write :: "string \<Rightarrow> state \<Rightarrow> state" where
  "file_logger_write str s =
     (if file_logger s \<noteq> None then s\<lparr>file_log := file_log s @ [str]\<rparr> else s)"

definition log :: "string \<Rightarrow> state \<Rightarrow> state" where
  "log str s = file_logger_write str (s\<lparr>console := console s @ [Out str]\<rparr>)"

definition log_error :: "string \<Rightarrow> state \<Rightarrow> state" where
  "log_error str s = file_logger_write str (s\<lparr>console := console s @ [Err str]\<rparr>)"

definition enable_file_logger :: "path \<Rightarrow> state \<Rightarrow> error option \<times> state" where
  "enable_file_logger filename s =
     (case openSync_w filename (fs s) of
        Inl e \<Rightarrow> (Some e, s)
      | Inr t \<Rightarrow> (None, s\<lparr>fs := t, file_logger := Some filename, file_log := []\<rparr>))"

definition cleanup_tasks :: "state \<Rightarrow> state" where
  "cleanup_tasks s = s\<lparr>file_logger := None\<rparr>"

text \<open>
  The message of every \<open>catch\<close> block, \<^verbatim>\<open>`Caught error: ${JSON.stringify(e)}`\<close>;
  \<open>error_text\<close> stands for the rendering of the thrown value.
\<close>

fun error_text :: "error \<Rightarrow> string" where
  "error_text ENOENT = ''ENOENT''"
| "error_text ENOTDIR = ''ENOTDIR''"
| "error_text EISDIR = ''EISDIR''"
| "error_text EACCES = ''EACCES''"
| "error_text EEXIST = ''EEXIST''"
| "error_text ENOTEMPTY = ''ENOTEMPTY''"
| "error_text EINVAL = ''EINVAL''"
| "error_text (ExitStatus n) = number_to_string n"
| "error_text (SpawnFailure m) = m"
| "error_text (ReferenceError n) = n @ '' is not defined''"

definition caught :: "error \<Rightarrow> string" where
  "caught e = ''Caught error: '' @ error_text e"


section \<open>Directory walker\<close>

text \<open>
  \<open>get_files\<close> runs on the node found at \<open>dir\<close>: \<open>readdir\<close> fails on anything but a
  directory that can be listed, and the loop goes through the listing with the arrays
  \<open>files\<close> and \<open>dirs\<close> as accumulator. Beside the result, or the error thrown, it returns
  the messages it passed to \<open>log_error\<close>. \<open>get_files_at\<close> is the call on a path: it finds
  the node in the file system of the state and writes the messages. (The copy of the
  walker in \<open>app.js\<close> makes the recursive call without arguments, so it neither skips dot
  files nor descends further below the first level of subdirectories.)
\<close>

record walk_result =
  files :: "path list"
  dirs :: "path list"

fun get_files ::
    "bool \<Rightarrow> bool \<Rightarrow> bool \<Rightarrow> path \<Rightarrow> fsnode \<Rightarrow> string list \<times> (error + walk_result)"
  and get_files_loop ::
    "bool \<Rightarrow> bool \<Rightarrow> bool \<Rightarrow> path \<Rightarrow> (string \<times> fsnode) list \<Rightarrow> walk_result
       \<Rightarrow> string list \<times> (error + walk_result)"
where
  "get_files skip_dot rec frc dir (Dir all_files) =
     get_files_loop skip_dot rec frc dir all_files \<lparr>files = [], dirs = []\<rparr>"
| "get_files skip_dot rec frc dir (File t) = ([], Inl ENOTDIR)"
| "get_files skip_dot rec frc dir Dangling = ([], Inl ENOENT)"
| "get_files skip_dot rec frc dir NoAccess = ([], Inl EACCES)"
| "get_files_loop skip_dot rec frc dir [] acc = ([], Inr acc)"
| "get_files_loop skip_dot rec frc dir ((file, v) # rest) acc =
     (if starts_with file ''.'' \<and> skip_dot then get_files_loop skip_dot rec frc dir rest acc
      else
        let fullpath = dir @ [file] in
        if v = Dangling then
          (if \<not> frc then ([caught ENOENT], Inl ENOENT)
           else (case get_files_loop skip_dot rec frc dir rest acc of
                   (msgs, r) \<Rightarrow> (caught ENOENT # msgs, r)))
        else if is_directory v then
          (let acc1 = acc\<lparr>dirs := dirs acc @ [fullpath]\<rparr> in
           if rec then
             (case get_files skip_dot rec frc fullpath v of
                (inner, Inl e) \<Rightarrow>
                  if \<not> frc then (inner @ [caught e], Inl e)
                  else (case get_files_loop skip_dot rec frc dir rest acc1 of
                          (msgs, r) \<Rightarrow> (inner @ caught e # msgs, r))
              | (inner, Inr result) \<Rightarrow>
                  (case get_files_loop skip_dot rec frc dir rest
                          (acc1\<lparr>files := files acc1 @ files result,
                                dirs := dirs acc1 @ dirs result\<rparr>) of
                     (msgs, r) \<Rightarrow> (inner @ msgs, r)))
           else get_files_loop skip_dot rec frc dir rest acc1)
        else get_files_loop skip_dot rec frc dir rest (acc\<lparr>files := files acc @ [fullpath]\<rparr>))"

text \<open>
  Three descriptions of what a walk finds, to compare \<open>get_files\<close> with.
  \<open>own_files\<close> and \<open>own_dirs\<close> are the entries of one listing that are not skipped: the
  first level. \<open>walk_files\<close> and \<open>walk_dirs\<close> go through a listing in order and let every
  entry contribute at its own place: a file itself, a directory itself and, when the walk
  recurses, what is found below it. \<open>spec_files\<close> and \<open>spec_dirs\<close> follow the wording of the
  specification: the entries of the parent first, then the entries found below its
  directories, one directory after the other.
\<close>

definition skipped :: "bool \<Rightarrow> string \<Rightarrow> bool" where
  "skipped skip_dot name = (starts_with name ''.'' \<and> skip_dot)"

fun is_file :: "fsnode \<Rightarrow> bool" where
  "is_file (File t) = True"
| "is_file (Dir es) = False"
| "is_file Dangling = False"
| "is_file NoAccess = False"

definition own_files :: "bool \<Rightarrow> path \<Rightarrow> (string \<times> fsnode) list \<Rightarrow> path list" where
  "own_files skip_dot dir es =
     [dir @ [name]. (name, v) \<leftarrow> es, \<not> skipped skip_dot name \<and> is_file v]"

definition own_dirs :: "bool \<Rightarrow> path \<Rightarrow> (string \<times> fsnode) list \<Rightarrow> path list" where
  "own_dirs skip_dot dir es =
     [dir @ [name]. (name, v) \<leftarrow> es, \<not> skipped skip_dot name \<and> is_directory v]"

fun walk_files :: "bool \<Rightarrow> bool \<Rightarrow> path \<Rightarrow> (string \<times> fsnode) list \<Rightarrow> path list" where
  "walk_files skip_dot rec dir [] = []"
| "walk_files skip_dot rec dir ((name, v) # rest) =
     (if skipped skip_dot name then []
      else (case v of
              File t \<Rightarrow> [dir @ [name]]
            | Dir sub \<Rightarrow> if rec then walk_files skip_dot rec (dir @ [name]) sub else []
            | Dangling \<Rightarrow> []
            | NoAccess \<Rightarrow> []))
     @ walk_files skip_dot rec dir rest"

fun walk_dirs :: "bool \<Rightarrow> bool \<Rightarrow> path \<Rightarrow> (string \<times> fsnode) list \<Rightarrow> path list" where
  "walk_dirs skip_dot rec dir [] = []"
| "walk_dirs skip_dot rec dir ((name, v) # rest) =
     (if skipped skip_dot name then []
      else (case v of
              File t \<Rightarrow> []
            | Dir sub \<Rightarrow>
                (dir @ [name]) # (if rec then walk_dirs skip_dot rec (dir @ [name]) sub else [])
            | Dangling \<Rightarrow> []
            | NoAccess \<Rightarrow> [dir @ [name]]))
     @ walk_dirs skip_dot rec dir rest"

fun spec_files_below :: "bool \<Rightarrow> path \<Rightarrow> (string \<times> fsnode) list \<Rightarrow> path list" where
  "spec_files_below skip_dot dir [] = []"
| "spec_files_below skip_dot dir ((name, v) # rest) =
     (if skipped skip_dot name then []
      else (case v of
              Dir sub \<Rightarrow>
                own_files skip_dot (dir @ [name]) sub
                  @ spec_files_below skip_dot (dir @ [name]) sub
            | _ \<Rightarrow> []))
     @ spec_files_below skip_dot dir rest"

definition spec_files :: "bool \<Rightarrow> path \<Rightarrow> (string \<times> fsnode) list \<Rightarrow> path list" where
  "spec_files skip_dot dir es = own_files skip_dot dir es @ spec_files_below skip_dot dir es"

fun spec_dirs_below :: "bool \<Rightarrow> path \<Rightarrow> (string \<times> fsnode) list \<Rightarrow> path list" where
  "spec_dirs_below skip_dot dir [] = []"
| "spec_dirs_below skip_dot dir ((name, v) # rest) =
     (if skipped skip_dot name then []
      else (case v of
              Dir sub \<Rightarrow>
                own_dirs skip_dot (dir @ [name]) sub
                  @ spec_dirs_below skip_dot (dir @ [name]) sub
            | _ \<Rightarrow> []))
     @ spec_dirs_below skip_dot dir rest"

definition spec_dirs :: "bool \<Rightarrow> path \<Rightarrow> (string \<times> fsnode) list \<Rightarrow> path list" where
  "spec_dirs skip_dot dir es = own_dirs skip_dot dir es @ spec_dirs_below skip_dot dir es"

definition get_files_at ::
    "path \<Rightarrow> bool \<Rightarrow> bool \<Rightarrow> bool \<Rightarrow> state \<Rightarrow> (error + walk_result) \<times> state" where
  "get_files_at dir skip_dot rec frc s =
     (case lookup (fs s) dir of
        None \<Rightarrow> (Inl ENOENT, s)
      | Some n \<Rightarrow>
          (case get_files skip_dot rec frc dir n of
             (msgs, r) \<Rightarrow> (r, fold log_error msgs s)))"


section \<open>File operation executor\<close>

definition arrow :: "path \<Rightarrow> path \<Rightarrow> string" where
  "arrow fullpath dest = path_string fullpath @ '' => '' @ path_string dest"

definition mkdir :: "path \<Rightarrow> state \<Rightarrow> error option \<times> state" where
  "mkdir fullpath s =
     (case mkdirSync fullpath (fs s) of
        Inl e \<Rightarrow> if e = EEXIST then (None, s) else (Some e, s)
      | Inr t \<Rightarrow> (None, s\<lparr>fs := t\<rparr>))"

definition copy_file :: "config \<Rightarrow> path \<Rightarrow> path \<Rightarrow> state \<Rightarrow> error option \<times> state" where
  "copy_file cfg fullpath dest s =
     (let s1 = log (arrow fullpath dest) s in
      if \<not> dryrun cfg then
        (case copyFileSync fullpath dest (fs s1) of
           Inl e \<Rightarrow> (Some e, s1)
         | Inr t \<Rightarrow> (None, s1\<lparr>fs := t\<rparr>))
      else (None, s1))"

definition rename :: "config \<Rightarrow> path \<Rightarrow> path \<Rightarrow> state \<Rightarrow> error option \<times> state" where
  "rename cfg fullpath dest s =
     (if copy cfg then copy_file cfg fullpath dest s
      else
        let s1 = log (arrow fullpath dest) s in
        if \<not> dryrun cfg then
          (case renameSync fullpath dest (fs s1) of
             Inl e \<Rightarrow> (Some e, s1)
           | Inr t \<Rightarrow> (None, s1\<lparr>fs := t\<rparr>))
        else (None, s1))"


section \<open>Reorder and rename\<close>

text \<open>
  The first three lines of the loop body of \<open>rename_by_file_order\<close> compute where a file
  goes:
  \<^verbatim>\<open>
  const ext = path.extname(file).toLowerCase();
  const new_name = get_ordered_filename(season, index++, prefix, tv_show_mode, ext);
  const dest = path.join(dest_dir, new_name);
  \<close>
  (The copy of this function in \<open>app.js\<close> has no \<open>toLowerCase\<close>.)
\<close>

definition ordered_new_name :: "int \<Rightarrow> int \<Rightarrow> string \<Rightarrow> bool \<Rightarrow> path \<Rightarrow> string" where
  "ordered_new_name season index pfx tv_show_mode file =
     (let ext = to_lower_case (extname file)
      in get_ordered_filename season index pfx tv_show_mode ext)"

definition ordered_dest :: "path \<Rightarrow> int \<Rightarrow> int \<Rightarrow> string \<Rightarrow> bool \<Rightarrow> path \<Rightarrow> path" where
  "ordered_dest dest_dir season index pfx tv_show_mode file =
     path_join dest_dir (ordered_new_name season index pfx tv_show_mode file)"

fun rename_loop ::
    "config \<Rightarrow> path \<Rightarrow> string \<Rightarrow> int \<Rightarrow> bool \<Rightarrow> int \<Rightarrow> path list \<Rightarrow> state
       \<Rightarrow> error option \<times> state" where
  "rename_loop cfg dest_dir pfx season tv_show_mode index [] s = (None, s)"
| "rename_loop cfg dest_dir pfx season tv_show_mode index (file # rest) s =
     (let dest = ordered_dest dest_dir season index pfx tv_show_mode file in
      case rename cfg file dest s of
        (None, s1) \<Rightarrow> rename_loop cfg dest_dir pfx season tv_show_mode (index + 1) rest s1
      | (Some e, s1) \<Rightarrow>
          let s2 = log_error (caught e) s1 in
          if \<not> force cfg then (Some e, s2)
          else rename_loop cfg dest_dir pfx season tv_show_mode (index + 1) rest s2)"

definition rename_by_file_order ::
    "config \<Rightarrow> path \<Rightarrow> path \<Rightarrow> string \<Rightarrow> int \<Rightarrow> int \<Rightarrow> bool \<Rightarrow> state
       \<Rightarrow> error option \<times> state" where
  "rename_by_file_order cfg dir dest_dir pfx season offset tv_show_mode s =
     (let s0 = log (''Renaming files in '' @ path_string dir @ '' based on file index...'') s
      in case get_files_at dir (\<not> dot cfg) (recurse cfg) (force cfg) s0 of
           (Inl e, s1) \<Rightarrow> (Some e, s1)
         | (Inr r, s1) \<Rightarrow>
             rename_loop cfg dest_dir pfx season tv_show_mode offset (files r) s1)"


section \<open>Substitution rename\<close>

text \<open>
  The source is an ECMAScript module (it begins with \<open>import\<close> declarations), so all of
  it is strict code: an assignment to a name that is declared nowhere throws a
  \<open>ReferenceError\<close>. \<open>assign_undeclared\<close> is such an assignment.

  \<open>remove\<close> hands its work to \<open>readdir(dir).then\<close>; the model, named \<open>remove_files\<close>, is that
  continuation, run on what \<open>readdir\<close> finds. It returns the error it ends with, if any, and
  the counter of renamed files. Nothing in it catches an error, whatever the options say.
  The first statement of the loop body is
  \<^verbatim>\<open>fullpath = path.join(dir, file)\<close>
  and neither \<open>fullpath\<close> nor, further down, \<open>dest\<close> is declared in the function or in the
  module (the loops of \<open>get_files\<close> and \<open>rename_by_file_order\<close> declare theirs with \<open>const\<close>):
  the loop ends at its first entry, before the name is examined.
\<close>

definition assign_undeclared :: "string \<Rightarrow> error + unit" where
  "assign_undeclared name = Inl (ReferenceError name)"

definition readdir :: "fsnode \<Rightarrow> path \<Rightarrow> error + string list" where
  "readdir root dir =
     (case lookup root dir of
        None \<Rightarrow> Inl ENOENT
      | Some (Dir es) \<Rightarrow> Inr (map fst es)
      | Some (File t) \<Rightarrow> Inl ENOTDIR
      | Some Dangling \<Rightarrow> Inl ENOENT
      | Some NoAccess \<Rightarrow> Inl EACCES)"

definition tab :: string where
  "tab = [CHR 0x09]"

definition newline :: string where
  "newline = [CHR 0x0A]"

definition quoted :: "string \<Rightarrow> string" where
  "quoted str = [CHR 0x22] @ str @ [CHR 0x22]"

definition attempting :: "path \<Rightarrow> string \<Rightarrow> string \<Rightarrow> string \<Rightarrow> string" where
  "attempting dir pfx replacement sfx =
     ''Attempting to reformat files'' @ newline @ tab @ ''Source dir = '' @ quoted (path_string dir)
       @ newline @ tab @ ''Prefix = '' @ quoted pfx
       @ newline @ tab @ ''Replacement = '' @ quoted replacement
       @ newline @ tab @ ''Suffix = '' @ quoted sfx"

definition renaming :: "path \<Rightarrow> path \<Rightarrow> string" where
  "renaming fullpath dest =
     tab @ tab @ ''Renaming:'' @ newline @ tab @ tab @ tab @ path_string fullpath
       @ newline @ tab @ tab @ tab @ ''=>'' @ newline @ tab @ tab @ tab @ path_string dest"

fun remove_loop ::
    "config \<Rightarrow> path \<Rightarrow> string \<Rightarrow> string \<Rightarrow> string \<Rightarrow> string list \<Rightarrow> nat \<Rightarrow> state
       \<Rightarrow> error option \<times> nat \<times> state" where
  "remove_loop cfg dir pfx replacement sfx [] counter s = (None, counter, s)"
| "remove_loop cfg dir pfx replacement sfx (file # rest) counter s =
     (case assign_undeclared ''fullpath'' of
        Inl e \<Rightarrow> (Some e, counter, s)
      | Inr u \<Rightarrow>
         (let fullpath = dir @ [file] in
          case statSync (fs s) fullpath of
            Inl e \<Rightarrow> (Some e, counter, s)
          | Inr v \<Rightarrow>
              if \<not> is_directory v then
                (let s1 = log (tab @ file @ ''...'') s;
                     s2 = (if starts_with file pfx then log (tab @ tab @ ''Prefix found'') s1 else s1);
                     s3 = (if js_includes file sfx then log (tab @ tab @ ''Suffix found'') s2 else s2);
                     new_name = substituted_name file pfx replacement sfx
                 in if new_name = file then
                      remove_loop cfg dir pfx replacement sfx rest counter
                        (log (tab @ tab @ ''Nothing to do'') s3)
                    else
                      (case assign_undeclared ''dest'' of
                         Inl e \<Rightarrow> (Some e, counter, s3)
                       | Inr u \<Rightarrow>
                          (let dest = path_join dir new_name;
                               s4 = log (renaming fullpath dest) s3
                           in case rename cfg fullpath dest s4 of
                                (Some e, s5) \<Rightarrow> (Some e, counter, s5)
                              | (None, s5) \<Rightarrow>
                                  remove_loop cfg dir pfx replacement sfx rest (counter + 1) s5)))
              else remove_loop cfg dir pfx replacement sfx rest counter s))"

definition remove_files ::
    "config \<Rightarrow> path \<Rightarrow> string \<Rightarrow> string \<Rightarrow> string \<Rightarrow> state \<Rightarrow> error option \<times> nat \<times> state" where
  "remove_files cfg dir pfx replacement sfx s =
     (case readdir (fs s) dir of
        Inl e \<Rightarrow> (Some e, 0, s)
      | Inr names \<Rightarrow>
          (let s0 = log (attempting dir pfx replacement sfx) s
           in case remove_loop cfg dir pfx replacement sfx names 0 s0 of
                (Some e, counter, s1) \<Rightarrow> (Some e, counter, s1)
              | (None, counter, s1) \<Rightarrow>
                  (None, counter,
                   log (''Renamed '' @ number_to_string (int counter) @ '' files.'') s1)))"


section \<open>Reconciling the incoming folder\<close>









text \<open>
  The rename plan of the specification for files in enumeration order: the file at
  position \<open>i\<close> gets index \<open>offset + i\<close> and is paired with the destination computed for
  that index.
\<close>

definition planned ::
    "path \<Rightarrow> string \<Rightarrow> int \<Rightarrow> bool \<Rightarrow> int \<Rightarrow> path list \<Rightarrow> (path \<times> path) list" where
  "planned dest_dir pfx season tv_show_mode offset found =
     map (\<lambda>(i, file). (file, ordered_dest dest_dir season (offset + int i) pfx tv_show_mode file))
       (enumerate 0 found)"


datatype verdict = Missing | ContentMismatch | Matching | Failed error






section \<open>External process bridge\<close>

text \<open>
  What \<open>spawnSync\<close> reports depends on the tool; \<open>tool\<close> gives the report for a command and
  its arguments. A command that was executed is recorded in \<open>spawned\<close>; what the tool does
  to the file system is outside the model.
\<close>

datatype spawn_result =
    SpawnError string
  | Exited int "string list"

fun unwords :: "string list \<Rightarrow> string" where
  "unwords [] = []"
| "unwords [w] = w"
| "unwords (w # ws) = w @ '' '' @ unwords ws"

definition spawn ::
    "config \<Rightarrow> (string \<Rightarrow> string list \<Rightarrow> spawn_result) \<Rightarrow> string \<Rightarrow> string list \<Rightarrow> state
       \<Rightarrow> error option \<times> state" where
  "spawn cfg tool cmd args s =
     (let s1 = log (cmd @ '' '' @ unwords args) s in
      if dryrun cfg then (None, s1)
      else
        let s2 = s1\<lparr>spawned := spawned s1 @ [(cmd, args)]\<rparr> in
        case tool cmd args of
          SpawnError stderr \<Rightarrow>
            (Some (SpawnFailure stderr), log_error (''Failed to execute: '' @ stderr) s2)
        | Exited status output \<Rightarrow>
            if status \<noteq> 0 then
              (Some (ExitStatus status),
               log_error (''Failed to execute: exit code '' @ number_to_string status) s2)
            else (None, log (unwords output) s2))"


section \<open>Extraction\<close>

text \<open>The function \<open>extract\<close> of the source is \<open>extract_one\<close> here.\<close>

definition extract_extension_copy_whitelist :: "string list" where
  "extract_extension_copy_whitelist =
     [''.avi'', ''.ts'', ''.mkv'', ''.mp4'', ''.m4v'', ''.wmv'', ''.srt'', ''.idx'', ''.sub'']"

definition should_copy_one :: "path \<Rightarrow> bool" where
  "should_copy_one filename =
     (to_lower_case (extname filename) \<in> set extract_extension_copy_whitelist)"

definition extract_extension_archive_whitelist :: "string list" where
  "extract_extension_archive_whitelist = [''.rar'']"

definition should_extract_one :: "path \<Rightarrow> bool" where
  "should_extract_one filename =
     (to_lower_case (extname filename) \<in> set extract_extension_archive_whitelist)"

text \<open>
  The \<open>filter\<close> callback handed to \<open>cpSync\<close>, with the array \<open>rar_files\<close> and the state it
  writes to; \<open>v\<close> is what \<open>statSync(src)\<close> finds.
\<close>

definition extract_filter ::
    "path \<Rightarrow> path \<Rightarrow> fsnode \<Rightarrow> path list \<times> state \<Rightarrow> (error + bool) \<times> path list \<times> state" where
  "extract_filter src dst v a =
     (case a of (rar_files, s) \<Rightarrow>
        if v = Dangling then (Inl ENOENT, a)
        else if is_directory v then (Inr True, a)
        else
          let rar_files1 = (if should_extract_one src then rar_files @ [src] else rar_files) in
          if should_copy_one src then (Inr True, rar_files1, log (arrow src dst) s)
          else (Inr False, rar_files1, log (''Skipping '' @ path_string src) s))"

text \<open>
  \<open>fs.cpSync(src, dest, {recursive: true, filter})\<close> on a directory: the entries of the
  source are taken in listing order, the filter is asked once for each, an accepted file
  is copied over whatever file is at the destination, an accepted directory is created at
  the destination when it is not there and then copied in the same way. The source is
  read as it was when the copy began.
\<close>

fun cpSync_node ::
    "path \<Rightarrow> path \<Rightarrow> fsnode \<Rightarrow> path list \<times> state \<Rightarrow> error option \<times> path list \<times> state"
  and cpSync_entries ::
    "path \<Rightarrow> path \<Rightarrow> (string \<times> fsnode) list \<Rightarrow> path list \<times> state
       \<Rightarrow> error option \<times> path list \<times> state"
where
  "cpSync_node src dest (File t) a =
     (case a of (rar_files, s) \<Rightarrow>
        (case parent_error (fs s) dest of
           Some e \<Rightarrow> (Some e, a)
         | None \<Rightarrow>
             (case lookup (fs s) dest of
                Some (Dir es) \<Rightarrow> (Some EISDIR, a)
              | Some NoAccess \<Rightarrow> (Some EISDIR, a)
              | _ \<Rightarrow> (None, rar_files, s\<lparr>fs := store dest (Some (File t)) (fs s)\<rparr>))))"
| "cpSync_node src dest (Dir es) a =
     (case a of (rar_files, s) \<Rightarrow>
        (case lookup (fs s) dest of
           None \<Rightarrow>
             (case mkdirSync dest (fs s) of
                Inl e \<Rightarrow> (Some e, a)
              | Inr t \<Rightarrow> cpSync_entries src dest es (rar_files, s\<lparr>fs := t\<rparr>))
         | Some (Dir ds) \<Rightarrow> cpSync_entries src dest es a
         | Some NoAccess \<Rightarrow> (Some EACCES, a)
         | Some m \<Rightarrow> (Some ENOTDIR, a)))"
| "cpSync_node src dest Dangling a = (Some ENOENT, a)"
| "cpSync_node src dest NoAccess a = (Some EACCES, a)"
| "cpSync_entries src dest [] a = (None, a)"
| "cpSync_entries src dest ((name, v) # rest) a =
     (case extract_filter (src @ [name]) (dest @ [name]) v a of
        (Inl e, a1) \<Rightarrow> (Some e, a1)
      | (Inr False, a1) \<Rightarrow> cpSync_entries src dest rest a1
      | (Inr True, a1) \<Rightarrow>
          (case cpSync_node (src @ [name]) (dest @ [name]) v a1 of
             (Some e, a2) \<Rightarrow> (Some e, a2)
           | (None, a2) \<Rightarrow> cpSync_entries src dest rest a2))"

definition cpSync ::
    "path \<Rightarrow> path \<Rightarrow> path list \<times> state \<Rightarrow> error option \<times> path list \<times> state" where
  "cpSync src dest a =
     (case a of (rar_files, s) \<Rightarrow>
        (case statSync (fs s) src of
           Inl e \<Rightarrow> (Some e, a)
         | Inr v \<Rightarrow>
             (case extract_filter src dest v a of
                (Inl e, a1) \<Rightarrow> (Some e, a1)
              | (Inr False, a1) \<Rightarrow> (None, a1)
              | (Inr True, a1) \<Rightarrow>
                  if take (length src) dest = src then (Some EINVAL, a1)
                  else cpSync_node src dest v a1)))"

fun extract_rar_loop ::
    "config \<Rightarrow> (string \<Rightarrow> string list \<Rightarrow> spawn_result) \<Rightarrow> string \<Rightarrow> path \<Rightarrow> path list \<Rightarrow> state
       \<Rightarrow> error option \<times> state" where
  "extract_rar_loop cfg tool rar dest_path [] s = (None, s)"
| "extract_rar_loop cfg tool rar dest_path (f # rest) s =
     (let args = [''x'', ''-y'', ''-idp'', quoted (path_string f), quoted (path_string dest_path)]
      in case spawn cfg tool (quoted rar) args s of
           (Some e, s1) \<Rightarrow> (Some e, s1)
         | (None, s1) \<Rightarrow> extract_rar_loop cfg tool rar dest_path rest s1)"

definition extract_one ::
    "config \<Rightarrow> (string \<Rightarrow> string list \<Rightarrow> spawn_result) \<Rightarrow> path \<Rightarrow> path \<Rightarrow> string \<Rightarrow> state
       \<Rightarrow> error option \<times> state" where
  "extract_one cfg tool content_path save_path rar s =
     (let filename = basename content_path;
          extract_path = save_path @ [''!extract''];
          dest_path = extract_path @ [filename];
          logfile = dest_path @ [''!extract.log'']
      in case mkdir dest_path s of
           (Some e, s1) \<Rightarrow> (Some e, s1)
         | (None, s1) \<Rightarrow>
             (case enable_file_logger logfile s1 of
                (Some e, s2) \<Rightarrow> (Some e, s2)
              | (None, s2) \<Rightarrow>
                  (let s3 = log (''Destination: '' @ path_string dest_path)
                              (log (''Content: '' @ path_string content_path)
                                (log (''Root: '' @ path_string save_path)
                                  (log ''Extracting...'' s2)))
                   in case statSync (fs s3) content_path of
                        Inl e \<Rightarrow> (Some e, s3)
                      | Inr v \<Rightarrow>
                          if \<not> is_directory v then
                            (if should_copy_one content_path then
                               (let dest_file = dest_path @ [filename]
                                in copy_file cfg content_path dest_file s3)
                             else (None, log (''Skipping '' @ path_string content_path) s3))
                          else
                            (case cpSync content_path dest_path ([], s3) of
                               (Some e, rar_files, s4) \<Rightarrow> (Some e, s4)
                             | (None, rar_files, s4) \<Rightarrow>
                                 extract_rar_loop cfg tool rar dest_path rar_files s4))))"


section \<open>The entry point\<close>

text \<open>
  \<open>main\<close> from the point where \<open>startup_tasks\<close> has returned, for a workflow that it
  awaits: the action runs, its error is caught and written once more, and the cleanup
  closes the file logger either way.
\<close>

definition main :: "(state \<Rightarrow> error option \<times> state) \<Rightarrow> state \<Rightarrow> state" where
  "main perform_action s =
     cleanup_tasks
       (case perform_action s of
          (None, s1) \<Rightarrow> log ''Done'' s1
        | (Some e, s1) \<Rightarrow> log_error (caught e) s1)"

text \<open>
  The last branch of \<open>perform_action\<close> calls \<open>remove\<close> and neither returns nor awaits what it
  starts, and \<open>remove\<close> itself only registers its continuation with \<open>readdir\<close>. So the
  action ends at once and without an error, \<open>main\<close> writes \<open>Done\<close> and closes the file logger,
  and the continuation runs after that: an error it throws is caught by nothing and is what
  the run ends with.
\<close>

definition main_remove ::
    "config \<Rightarrow> path \<Rightarrow> string \<Rightarrow> string \<Rightarrow> string \<Rightarrow> state \<Rightarrow> error option \<times> nat \<times> state" where
  "main_remove cfg dir pfx replacement sfx s =
     remove_files cfg dir pfx replacement sfx (main (\<lambda>s0. (None, s0)) s)"


section \<open>Example data\<close>

text \<open>Small file systems and states on which the theorems below are tried.\<close>

definition example_tree :: "(string \<times> fsnode) list" where
  "example_tree = [(''sub'', Dir [(''b'', File [])]), (''a'', File [])]"

definition example_state :: "fsnode \<Rightarrow> state" where
  "example_state t = \<lparr>fs = t, console = [], file_logger = None, file_log = [], spawned = []\<rparr>"

definition default_config :: config where
  "default_config = \<lparr>copy = False, dryrun = False, force = False, dot = False, recurse = False\<rparr>"

definition example_movies :: fsnode where
  "example_movies =
     Dir [(''m'', Dir [(''A.MKV'', File ''1''), (''b.mkv'', File ''2'')]), (''out'', Dir [])]"

definition example_prefixed :: fsnode where
  "example_prefixed =
     Dir [(''d'', Dir [(''FOO_x'', File ''1''), (''x'', Dir []), (''FOO_y'', File ''2'')])]"

definition example_clip :: fsnode where
  "example_clip = Dir [(''d'', Dir [(''FOO_clip.mp4'', File ''1'')])]"

definition example_plain :: fsnode where
  "example_plain = Dir [(''d'', Dir [(''clip.mp4'', File ''1'')])]"


definition example_single :: fsnode where
  "example_single = Dir [(''in'', Dir [(''a.mkv'', File ''1''), (''!extract'', Dir [])])]"

definition example_archive :: fsnode where
  "example_archive =
     Dir [(''in'', Dir [(''A'', Dir [(''x.rar'', File ''2'')]), (''!extract'', Dir [])])]"

definition example_tool :: "string \<Rightarrow> string list \<Rightarrow> spawn_result" where
  "example_tool cmd args = Exited 0 []"

definition example_two_archives :: fsnode where
  "example_two_archives =
     Dir [(''in'',
       Dir [(''A'', Dir [(''x.rar'', File ''2''), (''y.rar'', File ''3'')]), (''!extract'', Dir [])])]"

definition example_failing_tool :: "string \<Rightarrow> string list \<Rightarrow> spawn_result" where
  "example_failing_tool cmd args = Exited 1 []"


section \<open>Properties of the decimal rendering\<close>

lemma dec_nat_small: "n < 10 \<Longrightarrow> dec_nat n = [digit_char n]"
  by (subst dec_nat.simps) simp

lemma dec_nat_step:
  "10 \<le> n \<Longrightarrow> dec_nat n = dec_nat (n div 10) @ [digit_char (n mod 10)]"
  by (subst dec_nat.simps) simp

lemma length_dec_nat_pos: "0 < length (dec_nat n)"
  by (subst dec_nat.simps) simp

lemma length_dec_nat_lower: "10 ^ k \<le> n \<Longrightarrow> k < length (dec_nat n)"
proof (induction k arbitrary: n)
  case 0
  show ?case by (rule length_dec_nat_pos)
next
  case (Suc k)
  from Suc.prems have ten: "10 \<le> n"
    by (metis One_nat_def le_trans one_le_numeral one_le_power power_Suc
        mult_le_mono2 mult.right_neutral)
  from Suc.prems have "10 ^ k \<le> n div 10"
    by (simp add: less_eq_div_iff_mult_less_eq mult.commute)
  then have "k < length (dec_nat (n div 10))"
    by (rule Suc.IH)
  with ten show ?case
    by (simp add: dec_nat_step)
qed

lemma length_dec_nat_upper: "n < 10 ^ k \<Longrightarrow> 0 < k \<Longrightarrow> length (dec_nat n) \<le> k"
proof (induction k arbitrary: n)
  case 0
  then show ?case by simp
next
  case (Suc k)
  show ?case
  proof (cases "n < 10")
    case True
    then show ?thesis by (simp add: dec_nat_small)
  next
    case False
    then have ten: "10 \<le> n" by simp
    have kpos: "0 < k"
    proof (rule ccontr)
      assume "\<not> 0 < k"
      with Suc.prems ten show False by simp
    qed
    from Suc.prems have "n div 10 < 10 ^ k"
      by (simp add: div_less_iff_less_mult mult.commute)
    then have "length (dec_nat (n div 10)) \<le> k"
      using kpos by (rule Suc.IH)
    with ten show ?thesis
      by (simp add: dec_nat_step)
  qed
qed


lemma number_to_string_lower:
  assumes "0 \<le> n" and "10 ^ k \<le> n"
  shows "k < length (number_to_string n)"
proof -
  have "(10::nat) ^ k \<le> nat n"
    using assms by (simp add: le_nat_iff)
  then show ?thesis
    using assms by (simp add: number_to_string_def length_dec_nat_lower)
qed

lemma number_to_string_upper:
  assumes "0 \<le> n" and "n < 10 ^ k" and "0 < k"
  shows "length (number_to_string n) \<le> k"
proof -
  have "nat n < 10 ^ k"
    using assms by (simp add: nat_less_iff)
  then show ?thesis
    using assms by (simp add: number_to_string_def length_dec_nat_upper)
qed

lemma length_number_to_string_1: "0 \<le> n \<Longrightarrow> n < 10 \<Longrightarrow> length (number_to_string n) = 1"
  by (simp add: number_to_string_def dec_nat_small)

lemma length_number_to_string_2:
  "10 \<le> n \<Longrightarrow> n < 100 \<Longrightarrow> length (number_to_string n) = 2"
  using number_to_string_lower [of n 1] number_to_string_upper [of n 2] by simp

lemma length_number_to_string_3:
  "100 \<le> n \<Longrightarrow> n < 1000 \<Longrightarrow> length (number_to_string n) = 3"
  using number_to_string_lower [of n 2] number_to_string_upper [of n 3] by simp

lemma zero_padded_2: "0 \<le> n \<Longrightarrow> pad2 n = zero_padded 2 n"
proof (cases "n < 10")
  case True
  assume "0 \<le> n"
  with True show ?thesis
    by (simp add: pad2_def zero_padded_def length_number_to_string_1 numeral_2_eq_2)
next
  case False
  then have "1 < length (number_to_string n)"
    using number_to_string_lower [of n 1] by simp
  with False show ?thesis
    by (simp add: pad2_def zero_padded_def)
qed

lemma zero_padded_4: "0 \<le> n \<Longrightarrow> pad4 n = zero_padded 4 n"
proof -
  assume n: "0 \<le> n"
  consider "n < 10" | "10 \<le> n" "n < 100" | "100 \<le> n" "n < 1000" | "1000 \<le> n"
    by linarith
  then show ?thesis
  proof cases
    case 1
    with n show ?thesis
      by (simp add: pad4_def zero_padded_def length_number_to_string_1 eval_nat_numeral)
  next
    case 2
    then show ?thesis
      by (simp add: pad4_def zero_padded_def length_number_to_string_2 eval_nat_numeral)
  next
    case 3
    then show ?thesis
      by (simp add: pad4_def zero_padded_def length_number_to_string_3 eval_nat_numeral)
  next
    case 4
    then have "3 < length (number_to_string n)"
      using number_to_string_lower [of n 3] by simp
    with 4 show ?thesis
      by (simp add: pad4_def zero_padded_def)
  qed
qed

text \<open>
  Claim C8. For every index and season in \<open>[1,99]\<close> the TV-mode name for extension
  \<open>.mkv\<close> is \<open>S\<close>, the season zero-padded to width 2, \<open>E\<close>, the index zero-padded to
  width 2, and \<open>.mkv\<close>, both fields being exactly two characters long; in non-TV mode the
  name is the prefix, the index zero-padded to width 4, and the extension; and a value past
  the field width (100 and more at width 2, 10000 and more at width 4) is rendered in full,
  neither truncated nor padded again.
\<close>

theorem ordered_name_padding:
  "(1 \<le> index \<and> index \<le> 99 \<and> 1 \<le> season \<and> season \<le> 99 \<longrightarrow>
      get_ordered_filename season index pfx True ''.mkv''
        = ''S'' @ zero_padded 2 season @ ''E'' @ zero_padded 2 index @ ''.mkv''
      \<and> length (zero_padded 2 season) = 2 \<and> length (zero_padded 2 index) = 2)
   \<and> (0 \<le> index \<longrightarrow>
      get_ordered_filename season index pfx False ext = pfx @ zero_padded 4 index @ ext)
   \<and> (100 \<le> n \<longrightarrow> pad2 n = number_to_string n \<and> 2 < length (pad2 n))
   \<and> (10000 \<le> n \<longrightarrow> pad4 n = number_to_string n \<and> 4 < length (pad4 n))"
proof (intro conjI impI)
  assume r: "1 \<le> index \<and> index \<le> 99 \<and> 1 \<le> season \<and> season \<le> 99"
  then show "get_ordered_filename season index pfx True ''.mkv''
        = ''S'' @ zero_padded 2 season @ ''E'' @ zero_padded 2 index @ ''.mkv''"
    by (simp add: get_ordered_filename_def get_season_episode_for_file_index_def zero_padded_2)
  have "\<And>m. 1 \<le> m \<Longrightarrow> m \<le> 99 \<Longrightarrow> length (zero_padded 2 m) = 2"
  proof -
    fix m :: int assume m: "1 \<le> m" "m \<le> 99"
    show "length (zero_padded 2 m) = 2"
    proof (cases "m < 10")
      case True
      with m show ?thesis
        by (simp add: zero_padded_def length_number_to_string_1)
    next
      case False
      with m show ?thesis
        by (simp add: zero_padded_def length_number_to_string_2)
    qed
  qed
  with r show "length (zero_padded 2 season) = 2" and "length (zero_padded 2 index) = 2"
    by simp_all
next
  assume "0 \<le> index"
  then show "get_ordered_filename season index pfx False ext = pfx @ zero_padded 4 index @ ext"
    by (simp add: get_ordered_filename_def get_simple_filename_index_def zero_padded_4)
next
  assume "100 \<le> n"
  then show "pad2 n = number_to_string n" and "2 < length (pad2 n)"
    using number_to_string_lower [of n 2] by (simp_all add: pad2_def)
next
  assume "10000 \<le> n"
  then show "pad4 n = number_to_string n" and "4 < length (pad4 n)"
    using number_to_string_lower [of n 4] by (simp_all add: pad4_def)
qed

lemma number_to_string_eval:
  "number_to_string 3 = ''3''" "number_to_string 7 = ''7''" "number_to_string 42 = ''42''"
  "number_to_string 123 = ''123''" "number_to_string 12345 = ''12345''"
  by (simp_all add: number_to_string_def dec_nat_step dec_nat_small)

theorem ordered_name_padding_witness:
  "get_ordered_filename 3 7 ''x'' True ''.mkv'' = ''S03E07.mkv''
   \<and> get_ordered_filename 3 42 ''img'' False ''.JPG'' = ''img0042.JPG''
   \<and> pad2 123 = ''123'' \<and> pad4 12345 = ''12345''"
proof -
  have pads: "zero_padded 2 3 = ''03''" "zero_padded 2 7 = ''07''"
    "zero_padded 4 42 = ''0042''"
    by (simp_all add: zero_padded_def number_to_string_eval eval_nat_numeral)
  show ?thesis
    using ordered_name_padding [where index = 7 and season = 3 and pfx = "''x''" and n = 123]
      ordered_name_padding [where index = 42 and season = 3 and pfx = "''img''"
        and ext = "''.JPG''" and n = 12345]
    by (simp add: pads number_to_string_eval)
qed

section \<open>The extension in an ordered name\<close>

lemma starts_with_append: "starts_with (p @ s) p"
  by (induction p) auto

lemma ends_with_append: "ends_with (s @ e) e"
  by (simp add: ends_with_def starts_with_append)

lemma to_lower_case_MKV: "to_lower_case ''.MKV'' = ''.mkv''"
  by (simp add: to_lower_case_def to_lower_char_def)

lemma extname_A_MKV: "extname [''m'', ''A.MKV''] = ''.MKV''"
  by (simp add: extname_def extname_of_def basename_def)

lemma ordered_new_name_A_MKV: "ordered_new_name 1 1 [] True [''m'', ''A.MKV''] = ''S01E01.mkv''"
  by (simp add: ordered_new_name_def get_ordered_filename_def
      get_season_episode_for_file_index_def pad2_def number_to_string_def dec_nat_small
      extname_A_MKV to_lower_case_MKV)

text \<open>
  Claim C7, as stated, fails: the name that \<open>rename_by_file_order\<close> computes for the file
  \<open>m/A.MKV\<close> (season 1, index 1) is \<open>S01E01.mkv\<close>, which does not end with the extension
  \<open>.MKV\<close> of the source file.
\<close>

theorem ordered_name_extension_counterexample:
  "ordered_new_name 1 1 [] True [''m'', ''A.MKV''] = ''S01E01.mkv''
   \<and> extname [''m'', ''A.MKV''] = ''.MKV''
   \<and> \<not> ends_with (ordered_new_name 1 1 [] True [''m'', ''A.MKV''])
         (extname [''m'', ''A.MKV''])"
  by (simp add: ordered_new_name_A_MKV extname_A_MKV ends_with_def)

text \<open>
  Claim C7, amended. For every file processed by \<open>rename_by_file_order\<close> the destination
  file name ends with the extension of the source file in lower case; the name that
  \<open>get_ordered_filename\<close> produces ends with the extension exactly as it is passed in.
\<close>

theorem ordered_name_extension:
  "ends_with (get_ordered_filename season index pfx tv_show_mode ext) ext
   \<and> ends_with (ordered_new_name season index pfx tv_show_mode file)
        (to_lower_case (extname file))"
proof -
  have not_tv: "ends_with ((pfx @ pad4 i) @ e) e" for i e
    by (rule ends_with_append)
  have tv: "ends_with ((''S'' @ pad2 j @ ''E'' @ pad2 i) @ e) e" for i j e
    by (rule ends_with_append)
  have "ends_with (get_ordered_filename j i pfx tv_show_mode e) e" for i j e
    using not_tv [of i e] tv [of j i e]
    by (simp add: get_ordered_filename_def get_season_episode_for_file_index_def
        get_simple_filename_index_def)
  then show ?thesis
    by (simp add: ordered_new_name_def)
qed

section \<open>The directory walker\<close>

lemma own_files_simps [simp]:
  "own_files sd dir [] = []"
  "own_files sd dir ((name, v) # rest) =
     (if \<not> skipped sd name \<and> is_file v then [dir @ [name]] else []) @ own_files sd dir rest"
  by (simp_all add: own_files_def)

lemma own_dirs_simps [simp]:
  "own_dirs sd dir [] = []"
  "own_dirs sd dir ((name, v) # rest) =
     (if \<not> skipped sd name \<and> is_directory v then [dir @ [name]] else []) @ own_dirs sd dir rest"
  by (simp_all add: own_dirs_def)

lemma walk_files_first_level: "walk_files sd False dir es = own_files sd dir es"
  by (induction es) (auto split: fsnode.splits)

lemma walk_dirs_first_level: "walk_dirs sd False dir es = own_dirs sd dir es"
  by (induction es) (auto split: fsnode.splits)

lemma mset_walk_files:
  "mset (walk_files sd True dir es) = mset (own_files sd dir es) + mset (spec_files_below sd dir es)"
  by (induction sd True dir es rule: walk_files.induct) (auto split: fsnode.splits)

lemma mset_walk_dirs:
  "mset (walk_dirs sd True dir es) = mset (own_dirs sd dir es) + mset (spec_dirs_below sd dir es)"
  by (induction sd True dir es rule: walk_dirs.induct) (auto split: fsnode.splits)

lemma loop_cons:
  "get_files_loop sd rc fc d ((name, v) # rest) acc =
     (if skipped sd name then get_files_loop sd rc fc d rest acc
      else if v = Dangling then
        (if \<not> fc then ([caught ENOENT], Inl ENOENT)
         else (case get_files_loop sd rc fc d rest acc of
                 (msgs, r) \<Rightarrow> (caught ENOENT # msgs, r)))
      else if is_directory v then
        (if rc then
           (case get_files sd rc fc (d @ [name]) v of
              (inner, Inl e) \<Rightarrow>
                if \<not> fc then (inner @ [caught e], Inl e)
                else (case get_files_loop sd rc fc d rest
                             (acc\<lparr>dirs := dirs acc @ [d @ [name]]\<rparr>) of
                        (msgs, r) \<Rightarrow> (inner @ caught e # msgs, r))
            | (inner, Inr result) \<Rightarrow>
                (case get_files_loop sd rc fc d rest
                        (acc\<lparr>files := files acc @ files result,
                             dirs := (dirs acc @ [d @ [name]]) @ dirs result\<rparr>) of
                   (msgs, r) \<Rightarrow> (inner @ msgs, r)))
         else get_files_loop sd rc fc d rest (acc\<lparr>dirs := dirs acc @ [d @ [name]]\<rparr>))
      else get_files_loop sd rc fc d rest (acc\<lparr>files := files acc @ [d @ [name]]\<rparr>))"
  by (simp add: skipped_def Let_def del: get_files.simps)

declare get_files_loop.simps(2) [simp del]

lemma loop_skip:
  "skipped sd name \<Longrightarrow>
     get_files_loop sd rc fc d ((name, v) # rest) acc = get_files_loop sd rc fc d rest acc"
  by (simp add: loop_cons)

lemma loop_dangling:
  "\<not> skipped sd name \<Longrightarrow>
     get_files_loop sd rc fc d ((name, Dangling) # rest) acc =
       (if \<not> fc then ([caught ENOENT], Inl ENOENT)
        else (case get_files_loop sd rc fc d rest acc of
                (msgs, r) \<Rightarrow> (caught ENOENT # msgs, r)))"
  by (simp add: loop_cons)

lemma loop_file:
  "\<not> skipped sd name \<Longrightarrow>
     get_files_loop sd rc fc d ((name, File t) # rest) acc =
       get_files_loop sd rc fc d rest (acc\<lparr>files := files acc @ [d @ [name]]\<rparr>)"
  by (simp add: loop_cons)

lemma loop_shallow:
  "\<not> skipped sd name \<Longrightarrow> is_directory v \<Longrightarrow>
     get_files_loop sd False fc d ((name, v) # rest) acc =
       get_files_loop sd False fc d rest (acc\<lparr>dirs := dirs acc @ [d @ [name]]\<rparr>)"
  by (cases v) (simp_all add: loop_cons)

lemma loop_deep:
  "\<not> skipped sd name \<Longrightarrow> is_directory v \<Longrightarrow>
     get_files_loop sd True fc d ((name, v) # rest) acc =
       (case get_files sd True fc (d @ [name]) v of
          (inner, Inl e) \<Rightarrow>
            if \<not> fc then (inner @ [caught e], Inl e)
            else (case get_files_loop sd True fc d rest (acc\<lparr>dirs := dirs acc @ [d @ [name]]\<rparr>) of
                    (msgs, r) \<Rightarrow> (inner @ caught e # msgs, r))
        | (inner, Inr result) \<Rightarrow>
            (case get_files_loop sd True fc d rest
                    (acc\<lparr>files := files acc @ files result,
                         dirs := (dirs acc @ [d @ [name]]) @ dirs result\<rparr>) of
               (msgs, r) \<Rightarrow> (inner @ msgs, r)))"
  by (cases v) (simp_all add: loop_cons del: get_files.simps)

lemma get_files_force_total:
  "frc \<Longrightarrow> n = Dir es \<Longrightarrow> \<exists>msgs r. get_files sd rec frc dir n = (msgs, Inr r)"
  "frc \<Longrightarrow> \<exists>msgs r. get_files_loop sd rec frc dir es acc = (msgs, Inr r)"
proof (induction sd rec frc dir n and sd rec frc dir es acc arbitrary: es and
    rule: get_files_get_files_loop.induct)
  case (6 sd rc fc d name v rest acc)
  note fc = "6.prems"
  have nfc: "\<not> \<not> fc" using fc by simp
  consider (skip) "skipped sd name"
    | (dangling) "\<not> skipped sd name" "v = Dangling"
    | (plain) t where "\<not> skipped sd name" "v = File t"
    | (shallow) "\<not> skipped sd name" "is_directory v" "\<not> rc"
    | (deep) "\<not> skipped sd name" "is_directory v" "rc"
    by (cases v) auto
  then show ?case
  proof cases
    case skip
    with "6.IH"(1) [OF _ fc] show ?thesis
      by (simp add: loop_skip skipped_def)
  next
    case dangling
    have ns: "\<not> (starts_with name ''.'' \<and> sd)" using dangling by (simp add: skipped_def)
    from "6.IH"(2) [OF ns refl dangling(2) nfc fc]
    obtain m r where "get_files_loop sd rc fc d rest acc = (m, Inr r)" by blast
    with dangling fc show ?thesis
      by (simp add: loop_dangling)
  next
    case plain
    have ns: "\<not> (starts_with name ''.'' \<and> sd)" using plain by (simp add: skipped_def)
    have nd: "v \<noteq> Dangling" and nodir: "\<not> is_directory v" using plain by auto
    from "6.IH"(7) [OF ns refl nd nodir fc] plain show ?thesis
      by (simp add: loop_file)
  next
    case shallow
    have ns: "\<not> (starts_with name ''.'' \<and> sd)" using shallow by (simp add: skipped_def)
    have nd: "v \<noteq> Dangling" using shallow by auto
    from "6.IH"(6) [OF ns refl nd shallow(2) refl shallow(3) fc] shallow show ?thesis
      by (simp add: loop_shallow)
  next
    case deep
    have ns: "\<not> (starts_with name ''.'' \<and> sd)" using deep by (simp add: skipped_def)
    have nd: "v \<noteq> Dangling" using deep by auto
    obtain inner res where inner: "(inner, res) = get_files sd rc fc (d @ [name]) v"
      by (cases "get_files sd rc fc (d @ [name]) v") auto
    show ?thesis
    proof (cases res)
      case (Inl e)
      from "6.IH"(4) [OF ns refl nd deep(2) refl deep(3) inner Inl nfc fc]
      obtain m r where "get_files_loop sd rc fc d rest
          (acc\<lparr>dirs := dirs acc @ [d @ [name]]\<rparr>) = (m, Inr r)" by blast
      with deep inner [symmetric] Inl fc show ?thesis
        by (simp add: loop_deep)
    next
      case (Inr result)
      from "6.IH"(5) [OF ns refl nd deep(2) refl deep(3) inner Inr fc]
      obtain m r where "get_files_loop sd rc fc d rest
          (acc\<lparr>files := files acc @ files result,
               dirs := (dirs acc @ [d @ [name]]) @ dirs result\<rparr>) = (m, Inr r)"
        by auto
      with deep inner [symmetric] Inr show ?thesis
        by (simp add: loop_deep)
    qed
  qed
qed simp_all

lemma get_files_value:
  "get_files sd rec frc dir n = (msgs, Inr r) \<Longrightarrow>
      (\<exists>es. n = Dir es \<and> files r = walk_files sd rec dir es \<and> dirs r = walk_dirs sd rec dir es)"
  "get_files_loop sd rec frc dir es acc = (msgs, Inr r) \<Longrightarrow>
      files r = files acc @ walk_files sd rec dir es \<and> dirs r = dirs acc @ walk_dirs sd rec dir es"
proof (induction sd rec frc dir n and sd rec frc dir es acc arbitrary: msgs r and msgs r
    rule: get_files_get_files_loop.induct)
  case (6 sd rc fc d name v rest acc)
  note run = "6.prems"
  consider (skip) "skipped sd name"
    | (dangling) "\<not> skipped sd name" "v = Dangling"
    | (plain) t where "\<not> skipped sd name" "v = File t"
    | (shallow) "\<not> skipped sd name" "is_directory v" "\<not> rc"
    | (deep) "\<not> skipped sd name" "is_directory v" "rc"
    by (cases v) auto
  then show ?case
  proof cases
    case skip
    with run have "get_files_loop sd rc fc d rest acc = (msgs, Inr r)"
      by (simp add: loop_skip)
    with "6.IH"(1) skip show ?thesis
      by (simp add: skipped_def)
  next
    case dangling
    have ns: "\<not> (starts_with name ''.'' \<and> sd)" using dangling by (simp add: skipped_def)
    from run dangling obtain m where fc: "\<not> \<not> fc"
      and rest: "get_files_loop sd rc fc d rest acc = (m, Inr r)"
      by (auto simp: loop_dangling split: if_splits prod.splits)
    have "files r = files acc @ walk_files sd rc d rest
        \<and> dirs r = dirs acc @ walk_dirs sd rc d rest"
      by (rule "6.IH"(2) [OF ns refl dangling(2) fc rest])
    with dangling show ?thesis by simp
  next
    case plain
    have ns: "\<not> (starts_with name ''.'' \<and> sd)" using plain by (simp add: skipped_def)
    have nd: "v \<noteq> Dangling" and nodir: "\<not> is_directory v" using plain by auto
    from run plain have rest: "get_files_loop sd rc fc d rest
        (acc\<lparr>files := files acc @ [d @ [name]]\<rparr>) = (msgs, Inr r)"
      by (simp add: loop_file)
    have "files r = files (acc\<lparr>files := files acc @ [d @ [name]]\<rparr>) @ walk_files sd rc d rest
        \<and> dirs r = dirs (acc\<lparr>files := files acc @ [d @ [name]]\<rparr>) @ walk_dirs sd rc d rest"
      by (rule "6.IH"(7) [OF ns refl nd nodir rest])
    with plain show ?thesis by simp
  next
    case shallow
    have ns: "\<not> (starts_with name ''.'' \<and> sd)" using shallow by (simp add: skipped_def)
    have nd: "v \<noteq> Dangling" using shallow by auto
    from run shallow have rest: "get_files_loop sd rc fc d rest
        (acc\<lparr>dirs := dirs acc @ [d @ [name]]\<rparr>) = (msgs, Inr r)"
      by (simp add: loop_shallow)
    have "files r = files (acc\<lparr>dirs := dirs acc @ [d @ [name]]\<rparr>) @ walk_files sd rc d rest
        \<and> dirs r = dirs (acc\<lparr>dirs := dirs acc @ [d @ [name]]\<rparr>) @ walk_dirs sd rc d rest"
      by (rule "6.IH"(6) [OF ns refl nd shallow(2) refl shallow(3) rest])
    with shallow show ?thesis by (cases v) simp_all
  next
    case deep
    have ns: "\<not> (starts_with name ''.'' \<and> sd)" using deep by (simp add: skipped_def)
    have nd: "v \<noteq> Dangling" using deep by auto
    obtain inner res where inner: "(inner, res) = get_files sd rc fc (d @ [name]) v"
      by (cases "get_files sd rc fc (d @ [name]) v") auto
    show ?thesis
    proof (cases res)
      case (Inl e)
      from run deep inner [symmetric] Inl obtain m where fc: "\<not> \<not> fc"
        and rest: "get_files_loop sd rc fc d rest
          (acc\<lparr>dirs := dirs acc @ [d @ [name]]\<rparr>) = (m, Inr r)"
        by (auto simp: loop_deep split: if_splits prod.splits)
      have tail: "files r = files (acc\<lparr>dirs := dirs acc @ [d @ [name]]\<rparr>) @ walk_files sd rc d rest
          \<and> dirs r = dirs (acc\<lparr>dirs := dirs acc @ [d @ [name]]\<rparr>) @ walk_dirs sd rc d rest"
        by (rule "6.IH"(4) [OF ns refl nd deep(2) refl deep(3) inner Inl fc rest])
      have "v = NoAccess"
      proof (cases v)
        case (Dir sub)
        from fc have "fc" by simp
        from get_files_force_total(1) [OF this Dir, of sd rc "d @ [name]"] inner Inl
        show ?thesis by auto
      qed (use deep in auto)
      with tail deep show ?thesis by simp
    next
      case (Inr result)
      from "6.IH"(3) [OF ns refl nd deep(2) refl deep(3), of inner result] inner Inr
      obtain sub where v: "v = Dir sub"
        and sub: "files result = walk_files sd rc (d @ [name]) sub"
          "dirs result = walk_dirs sd rc (d @ [name]) sub"
        by auto
      from run deep inner [symmetric] Inr obtain m where
        rest: "get_files_loop sd rc fc d rest
          (acc\<lparr>dirs := dirs acc @ [d @ [name]]\<rparr>
             \<lparr>files := files (acc\<lparr>dirs := dirs acc @ [d @ [name]]\<rparr>) @ files result,
              dirs := dirs (acc\<lparr>dirs := dirs acc @ [d @ [name]]\<rparr>) @ dirs result\<rparr>)
           = (m, Inr r)"
        by (auto simp: loop_deep split: prod.splits)
      from "6.IH"(5) [OF ns refl nd deep(2) refl deep(3) inner Inr rest] sub v deep
      show ?thesis by simp
    qed
  qed
qed simp_all



lemma get_files_example_tree:
  "get_files True True False [''r''] (Dir example_tree) =
     ([], Inr \<lparr>files = [[''r'', ''sub'', ''b''], [''r'', ''a'']], dirs = [[''r'', ''sub'']]\<rparr>)"
  by (simp add: example_tree_def loop_cons skipped_def)

lemma spec_files_example_tree:
  "spec_files True [''r''] example_tree = [[''r'', ''a''], [''r'', ''sub'', ''b'']]"
  by (simp add: example_tree_def spec_files_def skipped_def)

text \<open>
  Claim C1, as stated, fails in the order it gives. In the directory \<open>r\<close> that lists the
  directory \<open>sub\<close> (holding the file \<open>b\<close>) before the file \<open>a\<close>, the recursive walk returns
  \<open>r/sub/b\<close> before \<open>r/a\<close>: what is found below a directory comes at the place of that
  directory in the listing, not after the entries of the parent.
\<close>

theorem walk_order_counterexample:
  "get_files True True False [''r''] (Dir example_tree) =
     ([], Inr \<lparr>files = [[''r'', ''sub'', ''b''], [''r'', ''a'']], dirs = [[''r'', ''sub'']]\<rparr>)
   \<and> spec_files True [''r''] example_tree = [[''r'', ''a''], [''r'', ''sub'', ''b'']]
   \<and> [[''r'', ''sub'', ''b''], [''r'', ''a'']] \<noteq> spec_files True [''r''] example_tree"
  using get_files_example_tree spec_files_example_tree by simp

text \<open>
  Claim C1, amended. With continue-on-error set the walk of a readable directory always
  returns a result. Whenever it returns one: without recursion the result is exactly the
  first-level entries that are not skipped; with recursion it holds every file and every
  directory of every depth that the specification's description holds, the dot-file rule
  applied at every level, in this order: each entry of a listing contributes at its own
  place, a file itself, a directory itself followed by what the walk finds below it.
\<close>

theorem walk_result:
  "(frc \<longrightarrow> (\<exists>msgs r. get_files sd rec frc dir (Dir es) = (msgs, Inr r)))
   \<and> (\<forall>msgs r. get_files sd rec frc dir (Dir es) = (msgs, Inr r) \<longrightarrow>
        files r = walk_files sd rec dir es \<and> dirs r = walk_dirs sd rec dir es
        \<and> (\<not> rec \<longrightarrow> files r = own_files sd dir es \<and> dirs r = own_dirs sd dir es)
        \<and> (rec \<longrightarrow> mset (files r) = mset (spec_files sd dir es)
                  \<and> mset (dirs r) = mset (spec_dirs sd dir es)))"
proof (intro conjI impI allI)
  assume "frc"
  then show "\<exists>msgs r. get_files sd rec frc dir (Dir es) = (msgs, Inr r)"
    by (rule get_files_force_total(1)) simp
next
  fix msgs r
  assume run: "get_files sd rec frc dir (Dir es) = (msgs, Inr r)"
  from get_files_value(1) [OF run]
  show walk: "files r = walk_files sd rec dir es" "dirs r = walk_dirs sd rec dir es"
    by simp_all
  {
    assume "\<not> rec"
    with walk show "files r = own_files sd dir es" "dirs r = own_dirs sd dir es"
      by (simp_all add: walk_files_first_level walk_dirs_first_level)
  }
  {
    assume "rec"
    with walk show "mset (files r) = mset (spec_files sd dir es)"
      "mset (dirs r) = mset (spec_dirs sd dir es)"
      by (simp_all add: mset_walk_files mset_walk_dirs spec_files_def spec_dirs_def)
  }
qed

theorem walk_result_witness:
  "get_files True True False [''r''] (Dir example_tree) =
     ([], Inr \<lparr>files = [[''r'', ''sub'', ''b''], [''r'', ''a'']], dirs = [[''r'', ''sub'']]\<rparr>)
   \<and> walk_files True True [''r''] example_tree = [[''r'', ''sub'', ''b''], [''r'', ''a'']]
   \<and> walk_dirs True True [''r''] example_tree = [[''r'', ''sub'']]
   \<and> mset [[''r'', ''sub'', ''b''], [''r'', ''a'']] = mset (spec_files True [''r''] example_tree)"
proof -
  define R where "R = \<lparr>files = [[''r'', ''sub'', ''b''], [''r'', ''a'']], dirs = [[''r'', ''sub'']]\<rparr>"
  have run: "get_files True True False [''r''] (Dir example_tree) = ([], Inr R)"
    unfolding R_def by (rule get_files_example_tree)
  from walk_result [of False True True "[''r'']" example_tree] run
  have a: "files R = walk_files True True [''r''] example_tree"
    and b: "dirs R = walk_dirs True True [''r''] example_tree"
    and c: "mset (files R) = mset (spec_files True [''r''] example_tree)"
    by blast+
  from run a [symmetric] b [symmetric] c show ?thesis
    unfolding R_def by (simp del: get_files.simps)
qed


section \<open>Logging and the dry run\<close>

lemma log_simps [simp]:
  "fs (log m s) = fs s"
  "console (log m s) = console s @ [Out m]"
  "file_logger (log m s) = file_logger s"
  "spawned (log m s) = spawned s"
  by (simp_all add: log_def file_logger_write_def)

lemma log_error_simps [simp]:
  "fs (log_error m s) = fs s"
  "console (log_error m s) = console s @ [Err m]"
  "file_logger (log_error m s) = file_logger s"
  "spawned (log_error m s) = spawned s"
  by (simp_all add: log_error_def file_logger_write_def)

lemma fold_log_error_simps [simp]:
  "fs (fold log_error msgs s) = fs s"
  "console (fold log_error msgs s) = console s @ map Err msgs"
  "file_logger (fold log_error msgs s) = file_logger s"
  "spawned (fold log_error msgs s) = spawned s"
  by (induction msgs arbitrary: s) simp_all

lemma fold_log_simps [simp]:
  "fs (fold log msgs s) = fs s"
  "console (fold log msgs s) = console s @ map Out msgs"
  "file_logger (fold log msgs s) = file_logger s"
  "spawned (fold log msgs s) = spawned s"
  by (induction msgs arbitrary: s) simp_all

lemma get_files_at_fs [simp]: "fs (snd (get_files_at dir sd rc fc s)) = fs s"
  by (simp add: get_files_at_def split: option.splits prod.splits)

lemma rename_dry:
  "dryrun cfg \<Longrightarrow> rename cfg src dst s = (None, log (arrow src dst) s)"
  by (simp add: rename_def copy_file_def)

lemma rename_console:
  "console (snd (rename cfg src dst s)) = console s @ [Out (arrow src dst)]"
  by (simp add: rename_def copy_file_def Let_def split: sum.splits)

lemma planned_Nil [simp]: "planned dest_dir pfx season tv offset [] = []"
  by (simp add: planned_def)

lemma planned_Cons [simp]:
  "planned dest_dir pfx season tv offset (file # rest) =
     (file, ordered_dest dest_dir season offset pfx tv file)
       # planned dest_dir pfx season tv (offset + 1) rest"
proof -
  have "enumerate (Suc 0) rest = map (\<lambda>(i, x). (Suc i, x)) (enumerate 0 rest)"
    by (simp add: enumerate_eq_zip map_Suc_upt [symmetric] zip_map1 del: upt_Suc)
  then show ?thesis
    by (simp add: planned_def split_def o_def add.assoc)
qed

lemma rename_loop_dry:
  "dryrun cfg \<Longrightarrow>
     rename_loop cfg dest_dir pfx season tv index found s =
       (None, fold log (map (\<lambda>(src, dst). arrow src dst) (planned dest_dir pfx season tv index found)) s)"
  by (induction found arbitrary: index s) (simp_all add: rename_dry)


lemma rename_by_file_order_cases:
  "rename_by_file_order cfg dir dest_dir pfx season offset tv s =
     (case lookup (fs s) dir of
        None \<Rightarrow>
          (Some ENOENT,
           log (''Renaming files in '' @ path_string dir @ '' based on file index...'') s)
      | Some n \<Rightarrow>
          (case get_files (\<not> dot cfg) (recurse cfg) (force cfg) dir n of
             (msgs, Inl e) \<Rightarrow>
               (Some e, fold log_error msgs
                  (log (''Renaming files in '' @ path_string dir @ '' based on file index...'') s))
           | (msgs, Inr r) \<Rightarrow>
               rename_loop cfg dest_dir pfx season tv offset (files r)
                 (fold log_error msgs
                    (log (''Renaming files in '' @ path_string dir @ '' based on file index...'') s))))"
  by (simp add: rename_by_file_order_def get_files_at_def Let_def
      split: option.splits prod.splits sum.splits)

text \<open>
  Claim C4. For every reorder-and-rename run with dry-run enabled no file system mutation
  occurs: the file system after the run is the file system before it, so no source file
  is moved or copied and nothing appears at a destination path. When the enumeration
  succeeds the run ends without an error and has logged, after the heading and the
  messages of the walker, the line \<open>src => dest\<close> for every planned pair, in order.
\<close>

theorem dry_run_is_read_only:
  "dryrun cfg \<Longrightarrow>
     fs (snd (rename_by_file_order cfg dir dest_dir pfx season offset tv s)) = fs s
     \<and> (\<forall>n msgs r.
           lookup (fs s) dir = Some n
           \<and> get_files (\<not> dot cfg) (recurse cfg) (force cfg) dir n = (msgs, Inr r) \<longrightarrow>
           fst (rename_by_file_order cfg dir dest_dir pfx season offset tv s) = None
           \<and> console (snd (rename_by_file_order cfg dir dest_dir pfx season offset tv s)) =
               console s @ Out (''Renaming files in '' @ path_string dir @ '' based on file index...'')
                 # map Err msgs
                 @ map (\<lambda>(src, dst). Out (arrow src dst))
                     (planned dest_dir pfx season tv offset (files r)))"
proof (intro conjI allI impI)
  assume dry: "dryrun cfg"
  show "fs (snd (rename_by_file_order cfg dir dest_dir pfx season offset tv s)) = fs s"
    by (simp add: rename_by_file_order_cases rename_loop_dry [OF dry]
        split: option.splits prod.splits sum.splits)
  fix n msgs r
  assume found: "lookup (fs s) dir = Some n
    \<and> get_files (\<not> dot cfg) (recurse cfg) (force cfg) dir n = (msgs, Inr r)"
  then show "fst (rename_by_file_order cfg dir dest_dir pfx season offset tv s) = None"
    by (simp add: rename_by_file_order_cases rename_loop_dry [OF dry])
  from found show "console (snd (rename_by_file_order cfg dir dest_dir pfx season offset tv s)) =
      console s @ Out (''Renaming files in '' @ path_string dir @ '' based on file index...'')
        # map Err msgs
        @ map (\<lambda>(src, dst). Out (arrow src dst))
            (planned dest_dir pfx season tv offset (files r))"
    by (simp add: rename_by_file_order_cases rename_loop_dry [OF dry] o_def split_def)
qed


lemma path_join_simple:
  "path_join [''out''] ''S01E01.mkv'' = [''out'', ''S01E01.mkv'']"
  "path_join [''out''] ''S01E02.mkv'' = [''out'', ''S01E02.mkv'']"
  by (simp_all add: path_join_def)

lemma ordered_new_name_examples:
  "ordered_new_name 1 1 [] True [''m'', ''A.MKV''] = ''S01E01.mkv''"
  "ordered_new_name 1 2 [] True [''m'', ''b.mkv''] = ''S01E02.mkv''"
  by (simp_all add: ordered_new_name_def get_ordered_filename_def
      get_season_episode_for_file_index_def pad2_def number_to_string_def dec_nat_small
      extname_def extname_of_def basename_def to_lower_case_def to_lower_char_def)

lemma planned_example:
  "planned [''out''] [] 1 True 1 [[''m'', ''A.MKV''], [''m'', ''b.mkv'']] =
     [([''m'', ''A.MKV''], [''out'', ''S01E01.mkv'']), ([''m'', ''b.mkv''], [''out'', ''S01E02.mkv''])]"
  by (simp add: ordered_dest_def ordered_new_name_examples path_join_simple)

lemma get_files_example_movies:
  "get_files True False False [''m''] (Dir [(''A.MKV'', File ''1''), (''b.mkv'', File ''2'')]) =
     ([], Inr \<lparr>files = [[''m'', ''A.MKV''], [''m'', ''b.mkv'']], dirs = []\<rparr>)"
  by (simp add: loop_cons skipped_def)

theorem dry_run_is_read_only_witness:
  "fs (snd (rename_by_file_order (default_config\<lparr>dryrun := True\<rparr>) [''m''] [''out''] [] 1 1 True
        (example_state example_movies))) = example_movies
   \<and> console (snd (rename_by_file_order (default_config\<lparr>dryrun := True\<rparr>) [''m''] [''out''] [] 1 1
        True (example_state example_movies))) =
       [Out ''Renaming files in m based on file index...'',
        Out ''m/A.MKV => out/S01E01.mkv'', Out ''m/b.mkv => out/S01E02.mkv'']"
proof -
  let ?cfg = "default_config\<lparr>dryrun := True\<rparr>"
  let ?s = "example_state example_movies"
  have dry: "dryrun ?cfg" by simp
  have found: "lookup (fs ?s) [''m''] = Some (Dir [(''A.MKV'', File ''1''), (''b.mkv'', File ''2'')])
      \<and> get_files (\<not> dot ?cfg) (recurse ?cfg) (force ?cfg) [''m'']
            (Dir [(''A.MKV'', File ''1''), (''b.mkv'', File ''2'')]) =
          ([], Inr \<lparr>files = [[''m'', ''A.MKV''], [''m'', ''b.mkv'']], dirs = []\<rparr>)"
    using get_files_example_movies
    by (simp add: example_state_def example_movies_def default_config_def)
  from dry_run_is_read_only [OF dry, of "[''m'']" "[''out'']" "[]" 1 1 True ?s] found
  have "fs (snd (rename_by_file_order ?cfg [''m''] [''out''] [] 1 1 True ?s)) = fs ?s"
    and "console (snd (rename_by_file_order ?cfg [''m''] [''out''] [] 1 1 True ?s)) =
      console ?s @ Out (''Renaming files in '' @ path_string [''m''] @ '' based on file index...'')
        # map Err []
        @ map (\<lambda>(src, dst). Out (arrow src dst))
            (planned [''out''] [] 1 True 1
               (files \<lparr>files = [[''m'', ''A.MKV''], [''m'', ''b.mkv'']], dirs = []\<rparr>))"
    by blast+
  then show ?thesis
    by (simp add: planned_example arrow_def example_state_def del: planned_Cons)
qed


section \<open>Continuing on error\<close>

text \<open>
  The loop of \<open>rename_by_file_order\<close> follows the continue-on-error flag. With the flag
  off it stops at the first item whose rename fails: whatever comes later in the sequence
  has no part in the result. With the flag on it never returns an error. Whenever it
  returns without an error it has logged the \<open>src => dest\<close> line of every planned pair,
  that is, it has attempted every item. \<open>main\<close> writes an error that reaches it once
  more and closes the file logger.
\<close>

lemma rename_loop_halts:
  assumes "\<not> force cfg"
    and "rename_loop cfg dest_dir pfx season tv index earlier s = (None, s1)"
    and "rename cfg item (ordered_dest dest_dir season (index + int (length earlier)) pfx tv item) s1
           = (Some e, s2)"
  shows "rename_loop cfg dest_dir pfx season tv index (earlier @ item # later) s
           = (Some e, log_error (caught e) s2)"
  using assms
proof (induction earlier arbitrary: index s)
  case Nil
  then show ?case by simp
next
  case (Cons x earlier)
  obtain r s' where step: "rename cfg x (ordered_dest dest_dir season index pfx tv x) s = (r, s')"
    by (cases "rename cfg x (ordered_dest dest_dir season index pfx tv x) s") auto
  with Cons.prems(1,2) have r: "r = None"
    and rest: "rename_loop cfg dest_dir pfx season tv (index + 1) earlier s' = (None, s1)"
    by (cases r; simp)+
  have "index + int (length (x # earlier)) = index + 1 + int (length earlier)"
    by simp
  with Cons.prems(3) have "rename cfg item
      (ordered_dest dest_dir season (index + 1 + int (length earlier)) pfx tv item) s1 = (Some e, s2)"
    by (simp only:)
  from Cons.IH [OF Cons.prems(1) rest this] step r show ?case
    by simp
qed

lemma rename_loop_attempts:
  assumes "fst (rename_loop cfg dest_dir pfx season tv index found s) = None"
  shows "\<exists>ls. console (snd (rename_loop cfg dest_dir pfx season tv index found s)) = console s @ ls
           \<and> filter is_out ls
               = map (\<lambda>(src, dst). Out (arrow src dst)) (planned dest_dir pfx season tv index found)"
  using assms
proof (induction found arbitrary: index s)
  case Nil
  then show ?case by simp
next
  case (Cons x found)
  let ?dest = "ordered_dest dest_dir season index pfx tv x"
  obtain r s' where step: "rename cfg x ?dest s = (r, s')"
    by (cases "rename cfg x ?dest s") auto
  have con: "console s' = console s @ [Out (arrow x ?dest)]"
    using rename_console [of cfg x ?dest s] step by simp
  show ?case
  proof (cases r)
    case None
    with step Cons.prems
    have "fst (rename_loop cfg dest_dir pfx season tv (index + 1) found s') = None"
      by simp
    from Cons.IH [OF this] obtain ls where
      "console (snd (rename_loop cfg dest_dir pfx season tv (index + 1) found s')) = console s' @ ls"
      "filter is_out ls = map (\<lambda>(src, dst). Out (arrow src dst))
          (planned dest_dir pfx season tv (index + 1) found)"
      by blast
    with None step con show ?thesis
      by simp
  next
    case (Some e)
    with step Cons.prems have frc: "force cfg"
      and "fst (rename_loop cfg dest_dir pfx season tv (index + 1) found (log_error (caught e) s')) = None"
      by (auto simp: Let_def split: if_splits)
    from Cons.IH [OF this(2)] obtain ls where
      "console (snd (rename_loop cfg dest_dir pfx season tv (index + 1) found
          (log_error (caught e) s'))) = console (log_error (caught e) s') @ ls"
      "filter is_out ls = map (\<lambda>(src, dst). Out (arrow src dst))
          (planned dest_dir pfx season tv (index + 1) found)"
      by blast
    with Some step con frc show ?thesis
      by (simp add: Let_def)
  qed
qed

lemma rename_loop_continues:
  "force cfg \<Longrightarrow> fst (rename_loop cfg dest_dir pfx season tv index found s) = None"
proof (induction found arbitrary: index s)
  case Nil
  then show ?case by simp
next
  case (Cons x found)
  then show ?case
    by (cases "rename cfg x (ordered_dest dest_dir season index pfx tv x) s")
      (auto simp: Let_def split: option.splits)
qed

lemma main_reports:
  "perform_action s = (Some e, s1) \<Longrightarrow>
     console (main perform_action s) = console s1 @ [Err (caught e)]
     \<and> fs (main perform_action s) = fs s1 \<and> file_logger (main perform_action s) = None"
  by (simp add: main_def cleanup_tasks_def)



section \<open>Workflows that do not consult the continue-on-error flag\<close>

lemma remove_loop_throws:
  "remove_loop cfg dir pfx replacement sfx (item # rest) counter s =
     (Some (ReferenceError ''fullpath''), counter, s)"
  by (simp add: assign_undeclared_def)

lemma remove_files_throws:
  "readdir (fs s) dir = Inr (item # rest) \<Longrightarrow>
     remove_files cfg dir pfx replacement sfx s =
       (Some (ReferenceError ''fullpath''), 0, log (attempting dir pfx replacement sfx) s)"
  by (simp add: remove_files_def remove_loop_throws Let_def del: remove_loop.simps)

lemma main_idle:
  "main (\<lambda>s0. (None, s0)) (example_state t) =
     \<lparr>fs = t, console = [Out ''Done''], file_logger = None, file_log = [], spawned = []\<rparr>"
  by (simp add: main_def cleanup_tasks_def log_def file_logger_write_def example_state_def)

lemma whitelist_two:
  "\<not> should_copy_one [''in'', ''A'', ''x.rar'']" "should_extract_one [''in'', ''A'', ''x.rar'']"
  "\<not> should_copy_one [''in'', ''A'', ''y.rar'']" "should_extract_one [''in'', ''A'', ''y.rar'']"
  by (simp_all add: should_copy_one_def should_extract_one_def extname_def extname_of_def
      basename_def to_lower_case_def to_lower_char_def extract_extension_copy_whitelist_def
      extract_extension_archive_whitelist_def)

lemma extract_two_archives:
  "fst (extract_one (default_config\<lparr>force := True\<rparr>) example_failing_tool [''in'', ''A''] [''in'']
        ''rar'' (example_state example_two_archives)) = Some (ExitStatus 1)"
  "spawned (snd (extract_one (default_config\<lparr>force := True\<rparr>) example_failing_tool [''in'', ''A'']
        [''in''] ''rar'' (example_state example_two_archives))) =
     [(quoted ''rar'', [''x'', ''-y'', ''-idp'', quoted ''in/A/x.rar'', quoted ''in/!extract/A''])]"
  by (simp_all add: extract_one_def Let_def basename_def mkdir_def mkdirSync_def parent_error_def
      enable_file_logger_def openSync_w_def statSync_def whitelist_two cpSync_def
      extract_filter_def spawn_def example_failing_tool_def example_two_archives_def
      default_config_def example_state_def)

text \<open>
  Claim C2. In a workflow run over a sequence of items in which one item fails, the run
  halts at the failing item when the continue-on-error flag is off, and logs the failure
  and goes on with every remaining item when the flag is on. \<open>rename_by_file_order\<close> does
  so (lemmas \<open>rename_loop_halts\<close>, \<open>rename_loop_continues\<close>, \<open>rename_loop_attempts\<close> and
  \<open>main_reports\<close>). Two workflows do not, for they never read the flag.

  The substitution rename, with the flag on, over the directory \<open>d\<close> that lists \<open>FOO_x\<close>, \<open>x\<close>
  and \<open>FOO_y\<close>: \<open>main\<close> has written \<open>Done\<close> before the loop starts; the loop fails at \<open>FOO_x\<close>
  with a \<open>ReferenceError\<close> and stops there; no line reports the failure, the entries \<open>x\<close> and
  \<open>FOO_y\<close> are not looked at, and the error is what the run ends with.

  The extraction, with the flag on, of the directory \<open>in/A\<close> that holds \<open>x.rar\<close> and \<open>y.rar\<close>,
  with a tool that exits with status 1: the run ends with that status as its error after
  the command for \<open>x.rar\<close>, and no command is executed for \<open>y.rar\<close>.
\<close>

theorem remove_and_extract_ignore_force:
  "main_remove (default_config\<lparr>force := True\<rparr>) [''d''] ''FOO_'' [] []
       (example_state example_prefixed) =
     (Some (ReferenceError ''fullpath''), 0,
      \<lparr>fs = example_prefixed,
       console = [Out ''Done'', Out (attempting [''d''] ''FOO_'' [] [])],
       file_logger = None, file_log = [], spawned = []\<rparr>)
   \<and> fst (extract_one (default_config\<lparr>force := True\<rparr>) example_failing_tool [''in'', ''A'']
          [''in''] ''rar'' (example_state example_two_archives)) = Some (ExitStatus 1)
   \<and> spawned (snd (extract_one (default_config\<lparr>force := True\<rparr>) example_failing_tool
          [''in'', ''A''] [''in''] ''rar'' (example_state example_two_archives))) =
       [(quoted ''rar'', [''x'', ''-y'', ''-idp'', quoted ''in/A/x.rar'', quoted ''in/!extract/A''])]"
  by (simp add: main_remove_def main_idle extract_two_archives
      remove_files_throws [where item = "''FOO_x''" and rest = "[''x'', ''FOO_y'']"]
      readdir_def example_prefixed_def log_def file_logger_write_def)


section \<open>The substitution rename on the examples of the specification\<close>

text \<open>
  Claim C5. \<open>substituted_name\<close> replaces the first occurrence of the prefix with the
  replacement when the original starts with the prefix, and removes the first occurrence
  of the suffix when the original contains it; for the name \<open>FOO_clip.mp4\<close> and the prefix
  \<open>FOO_\<close> the result is \<open>clip.mp4\<close>. The code computes the name inside the loop of \<open>remove\<close>,
  and the loop does not get that far: run on the directory \<open>d\<close> that holds \<open>FOO_clip.mp4\<close>,
  with the prefix \<open>FOO_\<close>, it ends with a \<open>ReferenceError\<close> at the assignment to \<open>fullpath\<close>;
  no name is computed, the file keeps its name and there is no \<open>clip.mp4\<close>.
\<close>

theorem remove_throws_before_substitution:
  "main_remove default_config [''d''] ''FOO_'' [] [] (example_state example_clip) =
     (Some (ReferenceError ''fullpath''), 0,
      \<lparr>fs = example_clip,
       console = [Out ''Done'', Out (attempting [''d''] ''FOO_'' [] [])],
       file_logger = None, file_log = [], spawned = []\<rparr>)
   \<and> lookup example_clip [''d'', ''FOO_clip.mp4''] = Some (File ''1'')
   \<and> lookup example_clip [''d'', ''clip.mp4''] = None"
  by (simp add: main_remove_def main_idle
      remove_files_throws [where item = "''FOO_clip.mp4''" and rest = "[]"]
      readdir_def example_clip_def log_def file_logger_write_def)


section \<open>Names that the substitution leaves unchanged\<close>

text \<open>
  Claim C6. A file whose name the substitution leaves unchanged is excluded from the
  rename plan, a no-op and not an error, so that a second run over names already produced
  renames nothing. In the code such a file is an error like every other entry: run on the
  directory \<open>d\<close> that holds only \<open>clip.mp4\<close>, with the prefix \<open>FOO_\<close> (the name does not start
  with it, and there is no suffix to remove), the loop ends with a \<open>ReferenceError\<close> at its
  first statement. The line \<open>Nothing to do\<close> is not written, nor is the closing line with
  the number of renamed files.
\<close>

theorem unchanged_name_is_an_error:
  "main_remove default_config [''d''] ''FOO_'' [] [] (example_state example_plain) =
     (Some (ReferenceError ''fullpath''), 0,
      \<lparr>fs = example_plain,
       console = [Out ''Done'', Out (attempting [''d''] ''FOO_'' [] [])],
       file_logger = None, file_log = [], spawned = []\<rparr>)
   \<and> Out (tab @ tab @ ''Nothing to do'') \<noteq> Out (attempting [''d''] ''FOO_'' [] [])
   \<and> Out ''Renamed 0 files.'' \<noteq> Out (attempting [''d''] ''FOO_'' [] [])"
  by (simp add: main_remove_def main_idle
      remove_files_throws [where item = "''clip.mp4''" and rest = "[]"]
      readdir_def example_plain_def log_def file_logger_write_def attempting_def tab_def)

section \<open>Reconciling the incoming folder\<close>












lemma basename_snoc [simp]: "basename (dir @ [name]) = name"
  by (simp add: basename_def)










lemma example_state_simps [simp]:
  "fs (example_state t) = t" "console (example_state t) = []"
  "file_logger (example_state t) = None" "spawned (example_state t) = []"
  by (simp_all add: example_state_def)











section \<open>The extract folder among the entries of the incoming root\<close>












section \<open>Extraction and the dry run\<close>

lemma whitelist_examples:
  "should_copy_one [''in'', ''a.mkv'']" "\<not> should_copy_one [''in'', ''A'', ''x.rar'']"
  "should_extract_one [''in'', ''A'', ''x.rar'']"
  by (simp_all add: should_copy_one_def should_extract_one_def extname_def extname_of_def
      basename_def to_lower_case_def to_lower_char_def extract_extension_copy_whitelist_def
      extract_extension_archive_whitelist_def)

lemma extract_single_wet:
  "fs (snd (extract_one default_config example_tool [''in'', ''a.mkv''] [''in''] ''rar''
        (example_state example_single))) =
     Dir [(''in'', Dir [(''a.mkv'', File ''1''),
       (''!extract'', Dir [(''a.mkv'', Dir [(''!extract.log'', File []), (''a.mkv'', File ''1'')])])])]"
  by (simp add: extract_one_def Let_def basename_def mkdir_def mkdirSync_def parent_error_def
      enable_file_logger_def openSync_w_def statSync_def whitelist_examples copy_file_def
      copyFileSync_def example_single_def default_config_def)

lemma extract_single_dry:
  "fs (snd (extract_one (default_config\<lparr>dryrun := True\<rparr>) example_tool [''in'', ''a.mkv''] [''in'']
        ''rar'' (example_state example_single))) =
     Dir [(''in'', Dir [(''a.mkv'', File ''1''),
       (''!extract'', Dir [(''a.mkv'', Dir [(''!extract.log'', File [])])])])]"
  by (simp add: extract_one_def Let_def basename_def mkdir_def mkdirSync_def parent_error_def
      enable_file_logger_def openSync_w_def statSync_def whitelist_examples copy_file_def
      copyFileSync_def example_single_def default_config_def)

lemma extract_archive_wet:
  "spawned (snd (extract_one default_config example_tool [''in'', ''A''] [''in''] ''rar''
        (example_state example_archive))) =
     [(quoted ''rar'', [''x'', ''-y'', ''-idp'', quoted ''in/A/x.rar'', quoted ''in/!extract/A''])]"
  by (simp add: extract_one_def Let_def basename_def mkdir_def mkdirSync_def parent_error_def
      enable_file_logger_def openSync_w_def statSync_def whitelist_examples cpSync_def
      extract_filter_def spawn_def example_tool_def example_archive_def default_config_def)

lemma extract_archive_dry:
  "spawned (snd (extract_one (default_config\<lparr>dryrun := True\<rparr>) example_tool [''in'', ''A'']
        [''in''] ''rar'' (example_state example_archive))) = []"
  by (simp add: extract_one_def Let_def basename_def mkdir_def mkdirSync_def parent_error_def
      enable_file_logger_def openSync_w_def statSync_def whitelist_examples cpSync_def
      extract_filter_def spawn_def example_tool_def example_archive_def default_config_def)

text \<open>
  Claim C9. The extract workflow does not honour dry-run: with the flag set it performs the
  same directory creation, file copies and archive extractions as without it (the comment
  above \<open>extract\<close> says that the function does not support the flag). The code does not do
  so, because \<open>copy_file\<close> and \<open>spawn\<close>, which \<open>extract\<close> calls, both read the flag. For the
  single file \<open>in/a.mkv\<close> both runs create \<open>in/!extract/a.mkv\<close> and the log file in it, but
  only the run without the flag copies the file there. For the directory \<open>in/A\<close> that holds
  \<open>x.rar\<close> the run without the flag executes the extraction command, and the dry run
  executes nothing.
\<close>

theorem extract_dry_run_skips_copy_and_spawn:
  "fs (snd (extract_one default_config example_tool [''in'', ''a.mkv''] [''in''] ''rar''
        (example_state example_single))) =
     Dir [(''in'', Dir [(''a.mkv'', File ''1''),
       (''!extract'', Dir [(''a.mkv'', Dir [(''!extract.log'', File []), (''a.mkv'', File ''1'')])])])]
   \<and> fs (snd (extract_one (default_config\<lparr>dryrun := True\<rparr>) example_tool [''in'', ''a.mkv'']
        [''in''] ''rar'' (example_state example_single))) =
     Dir [(''in'', Dir [(''a.mkv'', File ''1''),
       (''!extract'', Dir [(''a.mkv'', Dir [(''!extract.log'', File [])])])])]
   \<and> spawned (snd (extract_one default_config example_tool [''in'', ''A''] [''in''] ''rar''
        (example_state example_archive))) =
       [(quoted ''rar'', [''x'', ''-y'', ''-idp'', quoted ''in/A/x.rar'', quoted ''in/!extract/A''])]
   \<and> spawned (snd (extract_one (default_config\<lparr>dryrun := True\<rparr>) example_tool [''in'', ''A'']
        [''in''] ''rar'' (example_state example_archive))) = []"
  by (simp add: extract_single_wet extract_single_dry extract_archive_wet extract_archive_dry)
end
